theory Spec2Isabelle
  imports Complex_Main "HOL-Library.Word"
begin

section \<open>JavaScript strings\<close>

text \<open>
  A JavaScript string is a sequence of 16-bit code units. \<open>trim\<close> and the regular
  expression class \<open>\s\<close> are defined on code units, several of them above 255, so a
  string is a list of 16-bit words here and not a list of 8-bit characters. \<open>js\<close>
  turns an ASCII literal of the source into that representation.
\<close>

type_synonym jschar = "16 word"
type_synonym jsstring = "jschar list"

definition unit_of :: "char \<Rightarrow> jschar" where
  "unit_of c = of_nat (of_char c)"

definition js :: "string \<Rightarrow> jsstring" where
  "js s = map unit_of s"

text \<open>
  ECMAScript LineTerminator: LF, CR, U+2028, U+2029. The dot of a regular expression
  without the \<open>s\<close> flag matches every code unit but these.
\<close>

definition isLineTerminator :: "jschar \<Rightarrow> bool" where
  "isLineTerminator c \<longleftrightarrow> c \<in> {0x0A, 0x0D, 0x2028, 0x2029}"

text \<open>
  ECMAScript WhiteSpace together with LineTerminator: what \<open>String.prototype.trim\<close>
  strips and what \<open>\s\<close> matches (TAB, LF, VT, FF, CR, SP, NBSP, U+1680,
  U+2000 to U+200A, U+2028, U+2029, U+202F, U+205F, U+3000, U+FEFF).
\<close>

definition isSpace :: "jschar \<Rightarrow> bool" where
  "isSpace c \<longleftrightarrow> c \<in> {0x09, 0x0A, 0x0B, 0x0C, 0x0D, 0x20, 0xA0, 0x1680,
     0x2000, 0x2001, 0x2002, 0x2003, 0x2004, 0x2005, 0x2006, 0x2007, 0x2008, 0x2009, 0x200A,
     0x2028, 0x2029, 0x202F, 0x205F, 0x3000, 0xFEFF}"

text \<open>\<open>s.trim()\<close>: the string without its leading and trailing white space.\<close>

definition trim :: "jsstring \<Rightarrow> jsstring" where
  "trim s = rev (dropWhile isSpace (rev (dropWhile isSpace s)))"

text \<open>Truthiness of a string that may be \<open>null\<close> or \<open>undefined\<close>: only a non-empty string is truthy.\<close>

fun truthy_str :: "jsstring option \<Rightarrow> bool" where
  "truthy_str None = False"
| "truthy_str (Some s) = (s \<noteq> [])"

section \<open>Events of the agent server\<close>

text \<open>
  The source reads events through \<open>any\<close>. The records below hold the fields it reads
  (\<open>src/agent/index.ts\<close>, \<open>sessionEvents\<close>, \<open>extractAnswerFromEvents\<close>, \<open>query\<close>); a
  field that may be missing is an option, \<open>None\<close> standing for the absent field (for the
  fields read through \<open>?.\<close>, \<open>??\<close>, \<open>!\<close> or \<open>||\<close>, which take \<open>null\<close> as they take
  \<open>undefined\<close>, for \<open>null\<close> as well). Every event of the SDK's event union has a
  \<open>properties\<close> object; identifiers, types, roles, names and texts are strings; token
  counts are integers (of magnitude below \<open>2^53\<close>, where the addition of JavaScript
  numbers is exact); the cost is a number that is only tested against zero and copied.
\<close>

record Part =
  part_id :: jsstring
  part_type :: jsstring
  part_role :: "jsstring option"
  part_text :: "jsstring option"

record Tokens =
  tokens_input :: "int option"
  tokens_prompt :: "int option"
  tokens_output :: "int option"
  tokens_completion :: "int option"
  tokens_total :: "int option"

record Info =
  info_role :: "jsstring option"
  info_tokens :: "Tokens option"
  info_cost :: "rat option"

record ErrorData =
  data_message :: "jsstring option"

record ErrorPayload =
  error_data :: "ErrorData option"
  error_name :: "jsstring option"

record Properties =
  sessionID :: "jsstring option"
  part :: "Part option"
  info :: "Info option"
  error :: "ErrorPayload option"

record Event =
  etype :: jsstring
  properties :: Properties

section \<open>The event stream filter\<close>

text \<open>
  The global event source \<open>events.stream\<close> delivers events and then completes, throws
  (a broken transport), or stays open without delivering anything more. The events are
  those delivered up to that point; a source that goes on for ever without the idle event
  of the session keeps its consumer waiting as one that stays open does.
\<close>

datatype stream_end = StreamEnds | StreamThrows jsstring | StreamStaysOpen

datatype subscription = SubscribeRejects jsstring | Subscribed "Event list" stream_end

text \<open>
  The generator \<open>gen\<close> inside \<open>sessionEvents\<close>: the events it yields, in order, and how
  it finishes. It returns after yielding the idle event of the session, and finishes as
  the source does when the source is exhausted first: it completes, throws, or never
  yields again.
\<close>

fun gen :: "jsstring \<Rightarrow> Event list \<Rightarrow> stream_end \<Rightarrow> Event list \<times> stream_end" where
  "gen sid [] fin = ([], fin)"
| "gen sid (event # rest) fin =
     (let props = properties event in
      if sessionID props \<noteq> None \<and> sessionID props \<noteq> Some sid then gen sid rest fin
      else if etype event = js ''session.idle'' \<and> sessionID (properties event) = Some sid
        then ([event], StreamEnds)
      else (case gen sid rest fin of (ys, r) \<Rightarrow> (event # ys, r)))"

text \<open>\<open>sessionEvents\<close> subscribes first; a rejected subscription rejects the call.\<close>

definition sessionEvents :: "jsstring \<Rightarrow> subscription \<Rightarrow> jsstring + Event list \<times> stream_end" where
  "sessionEvents sid sub =
     (case sub of
        SubscribeRejects msg \<Rightarrow> Inl msg
      | Subscribed evs fin \<Rightarrow> Inr (gen sid evs fin))"

text \<open>The words of the specification: an event qualifies for the target session when it
  carries no \<open>sessionID\<close> or the target's; the idle event of the target.\<close>

definition qualifies :: "jsstring \<Rightarrow> Event \<Rightarrow> bool" where
  "qualifies sid e \<longleftrightarrow> sessionID (properties e) = None \<or> sessionID (properties e) = Some sid"

definition target_idle :: "jsstring \<Rightarrow> Event \<Rightarrow> bool" where
  "target_idle sid e \<longleftrightarrow> etype e = js ''session.idle'' \<and> sessionID (properties e) = Some sid"

section \<open>The answer assembler\<close>

text \<open>
  The body of the loop of \<open>extractAnswerFromEvents\<close>, on the two local variables
  \<open>partIds\<close> (an array) and \<open>partText\<close> (a \<open>Map\<close>): an event that is not a
  \<open>message.part.updated\<close>, has no part, a part that is not text, or a part of role
  \<open>user\<close>, is skipped; otherwise a new part id is pushed and the text of the id is
  overwritten by \<open>String(part.text ?? "")\<close>.
\<close>

definition collect_part ::
  "jsstring list \<times> (jsstring \<rightharpoonup> jsstring) \<Rightarrow> Event \<Rightarrow> jsstring list \<times> (jsstring \<rightharpoonup> jsstring)" where
  "collect_part acc event =
     (case acc of (partIds, partText) \<Rightarrow>
        if etype event \<noteq> js ''message.part.updated'' then acc
        else (case part (properties event) of
                None \<Rightarrow> acc
              | Some p \<Rightarrow>
                  if part_type p \<noteq> js ''text'' then acc
                  else if part_role p = Some (js ''user'') then acc
                  else (if part_id p \<in> set partIds then partIds else partIds @ [part_id p],
                        partText(part_id p \<mapsto> (case part_text p of None \<Rightarrow> [] | Some t \<Rightarrow> t)))))"

definition extractAnswerFromEvents :: "Event list \<Rightarrow> jsstring" where
  "extractAnswerFromEvents events =
     (case foldl collect_part ([], Map.empty) events of (partIds, partText) \<Rightarrow>
        trim (concat (map (\<lambda>i. case partText i of None \<Rightarrow> [] | Some t \<Rightarrow> t) partIds)))"

text \<open>
  The words of the specification, to compare the code with: the contributing parts of a
  list of events (text parts of \<open>message.part.updated\<close> events whose role is not
  \<open>user\<close>), the distinct ids in first-seen order, the latest text recorded for an id,
  and the trimmed concatenation.
\<close>

definition text_part :: "Event \<Rightarrow> Part option" where
  "text_part e =
     (if etype e = js ''message.part.updated'' then
        (case part (properties e) of
           None \<Rightarrow> None
         | Some p \<Rightarrow> if part_type p = js ''text'' \<and> part_role p \<noteq> Some (js ''user'') then Some p else None)
      else None)"

definition recorded_text :: "Part \<Rightarrow> jsstring" where
  "recorded_text p = (case part_text p of None \<Rightarrow> [] | Some t \<Rightarrow> t)"

definition contributing :: "Event list \<Rightarrow> Part list" where
  "contributing evs = List.map_filter text_part evs"

definition first_seen :: "'a list \<Rightarrow> 'a list" where
  "first_seen xs = rev (remdups (rev xs))"

definition latest_text :: "Part list \<Rightarrow> jsstring \<Rightarrow> jsstring" where
  "latest_text ps i =
     (case rev (filter (\<lambda>p. part_id p = i) ps) of [] \<Rightarrow> [] | p # _ \<Rightarrow> recorded_text p)"

text \<open>The map from part ids to their latest texts, in the words of the specification.\<close>

definition text_map :: "Part list \<Rightarrow> jsstring \<rightharpoonup> jsstring" where
  "text_map ps i = (if i \<in> part_id ` set ps then Some (latest_text ps i) else None)"

definition assembled :: "Event list \<Rightarrow> jsstring" where
  "assembled evs =
     (let ps = contributing evs
      in trim (concat (map (latest_text ps) (first_seen (map part_id ps)))))"

definition user_part_event :: "Event \<Rightarrow> bool" where
  "user_part_event e \<longleftrightarrow>
     etype e = js ''message.part.updated'' \<and>
     (case part (properties e) of None \<Rightarrow> False | Some p \<Rightarrow> part_role p = Some (js ''user''))"

text \<open>The update of a text part, as in the examples of the specification.\<close>

definition part_updated :: "string \<Rightarrow> string option \<Rightarrow> string \<Rightarrow> Event" where
  "part_updated i role t =
     \<lparr>etype = js ''message.part.updated'',
      properties = \<lparr>sessionID = None,
        part = Some \<lparr>part_id = js i, part_type = js ''text'', part_role = map_option js role,
                     part_text = Some (js t)\<rparr>,
        info = None, error = None\<rparr>\<rparr>"

text \<open>An event that carries nothing but its type and, possibly, a session id.\<close>

definition plain_event :: "string \<Rightarrow> string option \<Rightarrow> Event" where
  "plain_event t sid =
     \<lparr>etype = js t,
      properties = \<lparr>sessionID = map_option js sid, part = None, info = None, error = None\<rparr>\<rparr>"

section \<open>The agent and its queries\<close>

datatype ThinkingMode = Low | Medium | High

text \<open>
  The client made by \<open>createOpencodeClient\<close>: the address it is bound to and the
  repository directory. The process handle returned by \<open>spawnServer\<close> is opaque.
\<close>

record Client =
  baseUrl :: jsstring
  directory :: "jsstring option"

type_synonym proc = nat

text \<open>The private fields of the class \<open>SupportAgent\<close> (\<open>src/agent/index.ts\<close>).\<close>

record SupportAgent =
  client :: "Client option"
  serverProc :: "proc option"
  currentSessionId :: "jsstring option"
  repositoryPath :: "jsstring option"
  currentModel :: jsstring
  currentMode :: ThinkingMode

record TokenUsage =
  inputTokens :: int
  outputTokens :: int
  totalTokens :: int
  cost :: "rat option"

record QueryResult =
  response :: jsstring
  tokenUsage :: "TokenUsage option"

text \<open>
  What the server answers during one call of \<open>query\<close>: \<open>session.create()\<close> rejects,
  resolves without \<open>data\<close>, or resolves with \<open>data.id\<close>; \<open>event.subscribe()\<close> rejects or
  gives the event source. The answer to \<open>session.prompt\<close> is ignored by the source
  (\<open>void\<close>, with an empty \<open>catch\<close>).
\<close>

datatype creation = CreateRejects jsstring | CreateNoData | CreateData jsstring

record Server =
  on_create :: creation
  on_subscribe :: subscription

text \<open>The calls a method makes to its collaborators, in order.\<close>

record Prompt =
  prompt_session :: jsstring
  providerID :: "jsstring option"
  modelID :: "jsstring option"
  prompt_text :: jsstring

datatype call =
    SessionCreate
  | EventSubscribe
  | SessionPrompt Prompt
  | SpawnServer jsstring
  | StopServer "proc option"

text \<open>\<open>s.split(sep)\<close> for a separator of one code unit: never an empty array.\<close>

fun split :: "jschar \<Rightarrow> jsstring \<Rightarrow> jsstring list" where
  "split sep [] = [[]]"
| "split sep (c # cs) =
     (if c = sep then [] # split sep cs
      else (case split sep cs of [] \<Rightarrow> [[c]] | w # ws \<Rightarrow> (c # w) # ws))"

text \<open>An element of an array by index, \<open>undefined\<close> out of range (array destructuring).\<close>

definition element :: "'a list \<Rightarrow> nat \<Rightarrow> 'a option" where
  "element xs n = (if n < length xs then Some (xs ! n) else None)"

text \<open>\<open>const [providerID, modelID] = this._currentModel.split("/")\<close>.\<close>

definition modelSelector :: "jsstring \<Rightarrow> jsstring option \<times> jsstring option" where
  "modelSelector model = (let parts = split 0x2F model in (element parts 0, element parts 1))"

text \<open>\<open>a || d\<close> for a number and for a string that may be missing: \<open>0\<close>, the empty
  string and \<open>undefined\<close> are falsy.\<close>

fun num_or :: "int option \<Rightarrow> int \<Rightarrow> int" where
  "num_or None d = d"
| "num_or (Some n) d = (if n \<noteq> 0 then n else d)"

fun str_or :: "jsstring option \<Rightarrow> jsstring \<Rightarrow> jsstring" where
  "str_or None d = d"
| "str_or (Some s) d = (if s \<noteq> [] then s else d)"

text \<open>The \<open>TokenUsage\<close> built in the case \<open>message.updated\<close> of \<open>query\<close>.\<close>

definition usage_of :: "Tokens \<Rightarrow> rat option \<Rightarrow> TokenUsage" where
  "usage_of tokens c =
     \<lparr>inputTokens = num_or (tokens_input tokens) (num_or (tokens_prompt tokens) 0),
      outputTokens = num_or (tokens_output tokens) (num_or (tokens_completion tokens) 0),
      totalTokens = num_or (tokens_total tokens)
                      (num_or (tokens_input tokens) 0 + num_or (tokens_output tokens) 0),
      cost = (case c of None \<Rightarrow> None | Some x \<Rightarrow> if x \<noteq> 0 then Some x else None)\<rparr>"

text \<open>\<open>props?.error?.data?.message\<close> and \<open>props?.error?.name\<close>.\<close>

definition error_message :: "Properties \<Rightarrow> jsstring option" where
  "error_message props =
     (case error props of
        None \<Rightarrow> None
      | Some e \<Rightarrow> (case error_data e of None \<Rightarrow> None | Some d \<Rightarrow> data_message d))"

definition error_name_of :: "Properties \<Rightarrow> jsstring option" where
  "error_name_of props = (case error props of None \<Rightarrow> None | Some e \<Rightarrow> error_name e)"

definition error_text :: "Properties \<Rightarrow> jsstring" where
  "error_text props =
     str_or (error_message props) (str_or (error_name_of props) (js ''Unknown error occurred''))"

text \<open>The local variables of the event loop of \<open>query\<close>, and its body.\<close>

record Pump =
  sessionError :: "jsstring option"
  usage :: "TokenUsage option"
  collectedEvents :: "Event list"

definition on_event :: "Pump \<Rightarrow> Event \<Rightarrow> Pump" where
  "on_event st event =
     (let props = properties event;
          st1 = st\<lparr>collectedEvents := collectedEvents st @ [event]\<rparr>
      in if etype event = js ''message.updated'' then
           (case info props of
              None \<Rightarrow> st1
            | Some i \<Rightarrow>
                (case info_tokens i of
                   None \<Rightarrow> st1
                 | Some tokens \<Rightarrow>
                     if info_role i = Some (js ''assistant'')
                     then st1\<lparr>usage := Some (usage_of tokens (info_cost i))\<rparr>
                     else st1))
         else if etype event = js ''session.error'' then
           st1\<lparr>sessionError := Some (error_text props)\<rparr>
         else st1)"

text \<open>
  The loop over the filtered stream inside \<open>try\<close>, and the \<open>catch\<close>: when the stream
  throws, its message replaces whatever \<open>sessionError\<close> held. On a stream that stays open
  the loop does not finish, and the variables are those of the moment it waits.
\<close>

definition pump :: "Event list \<times> stream_end \<Rightarrow> Pump" where
  "pump stream =
     (case stream of (ys, fin) \<Rightarrow>
        (let st = foldl on_event \<lparr>sessionError = None, usage = None, collectedEvents = []\<rparr> ys
         in case fin of
              StreamEnds \<Rightarrow> st
            | StreamThrows msg \<Rightarrow> st\<lparr>sessionError := Some msg\<rparr>
            | StreamStaysOpen \<Rightarrow> st))"

text \<open>
  The promise an asynchronous method returns is rejected with an error (its message),
  fulfilled with a value, or never settled. The outcome of a method is that, the fields
  of the agent afterwards, and the calls it made.
\<close>

datatype 'a promise = Rejected jsstring | Fulfilled 'a | Pending

record 'a Outcome =
  result :: "'a promise"
  agent_after :: SupportAgent
  calls :: "call list"

text \<open>
  \<open>query(input, source)\<close>. A falsy \<open>currentSessionId\<close> (\<open>null\<close> or the empty string)
  asks the server for a session; a falsy \<open>sessionError\<close> after the loop lets the call
  return. The loop has no timeout: while the stream stays open the call is pending.
\<close>

definition query :: "Server \<Rightarrow> jsstring \<Rightarrow> jsstring option \<Rightarrow> SupportAgent \<Rightarrow> QueryResult Outcome" where
  "query srv input source agent =
     (case client agent of
        None \<Rightarrow> \<lparr>result = Rejected (js ''Agent not started''), agent_after = agent, calls = []\<rparr>
      | Some c \<Rightarrow>
          let fullQuery =
                (case source of
                   None \<Rightarrow> input
                 | Some src \<Rightarrow>
                     if src \<noteq> []
                     then js ''Using the source '' @ [0x27] @ src @ [0x27] @ js '', please answer: '' @ input
                     else input);
              ensured =
                (if truthy_str (currentSessionId agent)
                 then Inr (agent, [])
                 else (case on_create srv of
                         CreateRejects msg \<Rightarrow> Inl msg
                       | CreateNoData \<Rightarrow> Inl (js ''Failed to create session'')
                       | CreateData i \<Rightarrow> Inr (agent\<lparr>currentSessionId := Some i\<rparr>, [SessionCreate])))
          in case ensured of
               Inl msg \<Rightarrow> \<lparr>result = Rejected msg, agent_after = agent, calls = [SessionCreate]\<rparr>
             | Inr (agent1, made) \<Rightarrow>
                 let sid = (case currentSessionId agent1 of None \<Rightarrow> [] | Some i \<Rightarrow> i);
                     (provider, model) = modelSelector (currentModel agent1)
                 in case sessionEvents sid (on_subscribe srv) of
                      Inl msg \<Rightarrow>
                        \<lparr>result = Rejected msg, agent_after = agent1, calls = made @ [EventSubscribe]\<rparr>
                    | Inr eventStream \<Rightarrow>
                        let prompt = \<lparr>prompt_session = sid, providerID = provider, modelID = model,
                                       prompt_text = fullQuery\<rparr>;
                            st = pump eventStream;
                            responseText = extractAnswerFromEvents (collectedEvents st)
                        in \<lparr>result =
                              (if snd eventStream = StreamStaysOpen then Pending
                               else if truthy_str (sessionError st)
                               then Rejected (case sessionError st of None \<Rightarrow> [] | Some msg \<Rightarrow> msg)
                               else Fulfilled \<lparr>response = (if responseText \<noteq> [] then responseText
                                                            else js ''(No response received)''),
                                               tokenUsage = usage st\<rparr>),
                            agent_after = agent1,
                            calls = made @ [EventSubscribe, SessionPrompt prompt]\<rparr>)"

section \<open>Words of the specification about a query\<close>

text \<open>
  A \<open>session.error\<close> event; the token usage an event reports (a \<open>message.updated\<close>
  event of the assistant that carries token counts); the last element of a list; and
  the session a query works with: the cached one, or else the one the server creates.
\<close>

definition session_error :: "Event \<Rightarrow> bool" where
  "session_error e \<longleftrightarrow> etype e = js ''session.error''"

definition usage_report :: "Event \<Rightarrow> TokenUsage option" where
  "usage_report e =
     (if etype e = js ''message.updated'' then
        (case info (properties e) of
           None \<Rightarrow> None
         | Some i \<Rightarrow>
             (case info_tokens i of
                None \<Rightarrow> None
              | Some tokens \<Rightarrow>
                  if info_role i = Some (js ''assistant'') then Some (usage_of tokens (info_cost i))
                  else None))
      else None)"

definition last_option :: "'a list \<Rightarrow> 'a option" where
  "last_option xs = (case rev xs of [] \<Rightarrow> None | x # _ \<Rightarrow> Some x)"

definition session_for :: "Server \<Rightarrow> SupportAgent \<Rightarrow> jsstring option" where
  "session_for srv agent =
     (if truthy_str (currentSessionId agent) then currentSessionId agent
      else (case on_create srv of CreateData i \<Rightarrow> Some i | _ \<Rightarrow> None))"

text \<open>The words of the specification on the message of a \<open>session.error\<close> event: its
  structured message when it has a non-empty one, else its error name when it has a
  non-empty one, else the generic text.\<close>

definition structured_message :: "Event \<Rightarrow> jsstring option" where
  "structured_message e =
     (case error (properties e) of
        None \<Rightarrow> None
      | Some payload \<Rightarrow>
          (case error_data payload of
             None \<Rightarrow> None
           | Some d \<Rightarrow>
               (case data_message d of None \<Rightarrow> None | Some m \<Rightarrow> if m = [] then None else Some m)))"

definition named_error :: "Event \<Rightarrow> jsstring option" where
  "named_error e =
     (case error (properties e) of
        None \<Rightarrow> None
      | Some payload \<Rightarrow>
          (case error_name payload of None \<Rightarrow> None | Some n \<Rightarrow> if n = [] then None else Some n))"

definition captured_message :: "Event \<Rightarrow> jsstring" where
  "captured_message e =
     (case structured_message e of
        Some m \<Rightarrow> m
      | None \<Rightarrow> (case named_error e of Some n \<Rightarrow> n | None \<Rightarrow> js ''Unknown error occurred''))"

text \<open>The text submitted for an input and a source hint, in the words of the specification.\<close>

definition instruction :: "jsstring \<Rightarrow> jsstring option \<Rightarrow> jsstring" where
  "instruction input hint =
     (case hint of
        None \<Rightarrow> input
      | Some h \<Rightarrow>
          if h = [] then input
          else js ''Using the source '' @ [0x27] @ h @ [0x27] @ js '', please answer: '' @ input)"

section \<open>Setters and lifecycle\<close>

definition setModel :: "jsstring \<Rightarrow> SupportAgent \<Rightarrow> SupportAgent" where
  "setModel modelString agent = agent\<lparr>currentModel := modelString\<rparr>"

definition setThinkingMode :: "ThinkingMode \<Rightarrow> SupportAgent \<Rightarrow> SupportAgent" where
  "setThinkingMode mode agent = agent\<lparr>currentMode := mode\<rparr>"

definition setSessionId :: "jsstring \<Rightarrow> SupportAgent \<Rightarrow> SupportAgent" where
  "setSessionId sessionId agent = agent\<lparr>currentSessionId := Some sessionId\<rparr>"

definition setRepositoryPath :: "jsstring \<Rightarrow> SupportAgent \<Rightarrow> SupportAgent" where
  "setRepositoryPath path agent = agent\<lparr>repositoryPath := Some path\<rparr>"

text \<open>
  \<open>spawnServer\<close> lives in \<open>src/agent/server.ts\<close>, which is not among the sources; what
  it answers is a parameter of \<open>start\<close>: it throws, or returns a process and its URL.
\<close>

datatype spawning = SpawnFails jsstring | Spawned proc jsstring

definition start :: "spawning \<Rightarrow> SupportAgent \<Rightarrow> unit Outcome" where
  "start spawned agent =
     (case spawned of
        SpawnFails msg \<Rightarrow>
          \<lparr>result = Rejected msg, agent_after = agent, calls = [SpawnServer (currentModel agent)]\<rparr>
      | Spawned process url \<Rightarrow>
          \<lparr>result = Fulfilled (),
           agent_after = agent\<lparr>serverProc := Some process,
             client := Some \<lparr>baseUrl = url,
                             directory = (if truthy_str (repositoryPath agent)
                                          then repositoryPath agent else None)\<rparr>\<rparr>,
           calls = [SpawnServer (currentModel agent)]\<rparr>)"

text \<open>
  Modelled from the spec: \<open>stopServer\<close> of \<open>src/agent/server.ts\<close>, which is not among
  the sources. By sections 4.1 and 7 of the specification stopping is a no-op when
  nothing runs and failures to kill the process are swallowed, so the call always
  completes and \<open>stop\<close> goes on to clear its fields.
\<close>

definition stop :: "SupportAgent \<Rightarrow> unit Outcome" where
  "stop agent =
     \<lparr>result = Fulfilled (),
      agent_after = agent\<lparr>serverProc := None, client := None, currentSessionId := None\<rparr>,
      calls = [StopServer (serverProc agent)]\<rparr>"

definition restart :: "spawning \<Rightarrow> SupportAgent \<Rightarrow> unit Outcome" where
  "restart spawned agent =
     (let stopped = stop agent; started = start spawned (agent_after stopped)
      in \<lparr>result = result started, agent_after = agent_after started,
          calls = calls stopped @ calls started\<rparr>)"

text \<open>
  A caller of the agent issues requests one after the other and awaits each (a single
  query is in flight at a time). \<open>run\<close> performs them in order and logs, for each, its
  promise and its calls; a request whose promise never settles is the last one.
\<close>

datatype request =
    SetModel jsstring
  | SetThinkingMode ThinkingMode
  | SetSessionId jsstring
  | SetRepositoryPath jsstring
  | Start spawning
  | Stop
  | Restart spawning
  | Query Server jsstring "jsstring option"

datatype entry = Performed "unit promise" "call list" | Answered "QueryResult promise" "call list"

fun perform :: "request \<Rightarrow> SupportAgent \<Rightarrow> SupportAgent \<times> entry" where
  "perform (SetModel m) agent = (setModel m agent, Performed (Fulfilled ()) [])"
| "perform (SetThinkingMode mode) agent = (setThinkingMode mode agent, Performed (Fulfilled ()) [])"
| "perform (SetSessionId i) agent = (setSessionId i agent, Performed (Fulfilled ()) [])"
| "perform (SetRepositoryPath path) agent = (setRepositoryPath path agent, Performed (Fulfilled ()) [])"
| "perform (Start spawned) agent =
     (agent_after (start spawned agent),
      Performed (result (start spawned agent)) (calls (start spawned agent)))"
| "perform Stop agent = (agent_after (stop agent), Performed (result (stop agent)) (calls (stop agent)))"
| "perform (Restart spawned) agent =
     (agent_after (restart spawned agent),
      Performed (result (restart spawned agent)) (calls (restart spawned agent)))"
| "perform (Query srv input source) agent =
     (agent_after (query srv input source agent),
      Answered (result (query srv input source agent)) (calls (query srv input source agent)))"

fun pending :: "entry \<Rightarrow> bool" where
  "pending (Performed p _) = (p = Pending)"
| "pending (Answered p _) = (p = Pending)"

fun run :: "request list \<Rightarrow> SupportAgent \<Rightarrow> SupportAgent \<times> entry list" where
  "run [] agent = (agent, [])"
| "run (r # rs) agent =
     (case perform r agent of (agent1, e) \<Rightarrow>
        if pending e then (agent1, [e])
        else (case run rs agent1 of (agent2, es) \<Rightarrow> (agent2, e # es)))"

fun starts :: "request \<Rightarrow> bool" where
  "starts (Start _) = True"
| "starts (Restart _) = True"
| "starts _ = False"

fun resets :: "request \<Rightarrow> bool" where
  "resets Stop = True"
| "resets (Restart _) = True"
| "resets (SetSessionId _) = True"
| "resets _ = False"

section \<open>Parsing the input line\<close>

record ParsedInput =
  source :: "jsstring option"
  query_text :: jsstring

text \<open>
  The regular expression of \<open>parseInput\<close> is \<open>^\[(.*?)\]\s*(.*)$\<close>, without flags.
  After the opening bracket, the lazy group \<open>(.*?)\<close> holds \<open>taken\<close>; it ends at the
  first closing bracket after which the rest of the pattern matches, and otherwise
  grows by one code unit that is not a line terminator. The rest \<open>\s*(.*)$\<close> matches
  when what follows the leading white space has no line terminator up to the end of the
  input, and the greedy \<open>\s*\<close> leaves that remainder to the second group.
\<close>

fun lazy_group :: "jsstring \<Rightarrow> jsstring \<Rightarrow> (jsstring \<times> jsstring) option" where
  "lazy_group taken [] = None"
| "lazy_group taken (c # cs) =
     (if c = 0x5D \<and> \<not> list_ex isLineTerminator (dropWhile isSpace cs)
        then Some (taken, dropWhile isSpace cs)
      else if isLineTerminator c then None
      else lazy_group (taken @ [c]) cs)"

definition sourceMatch :: "jsstring \<Rightarrow> (jsstring \<times> jsstring) option" where
  "sourceMatch input =
     (case input of [] \<Rightarrow> None | c # cs \<Rightarrow> if c = 0x5B then lazy_group [] cs else None)"

definition parseInput :: "jsstring \<Rightarrow> ParsedInput" where
  "parseInput input =
     (case sourceMatch input of
        Some (g1, g2) \<Rightarrow> \<lparr>source = Some (trim g1), query_text = trim g2\<rparr>
      | None \<Rightarrow> \<lparr>source = None, query_text = trim input\<rparr>)"

text \<open>An input has a leading bracketed prefix when it opens with a bracket that is
  closed later.\<close>

definition bracketed :: "jsstring \<Rightarrow> bool" where
  "bracketed input = (case input of [] \<Rightarrow> False | c # cs \<Rightarrow> c = 0x5B \<and> 0x5D \<in> set cs)"

section \<open>Providers and their API keys\<close>

text \<open>
  The constants and methods of the earlier agent class that holds them
  (\<open>PROVIDER_API_KEYS\<close>, \<open>FREE_PROVIDERS\<close>, \<open>allowedProviders\<close>, \<open>requiresApiKey\<close>,
  \<open>hasApiKey\<close>).
\<close>

definition PROVIDER_API_KEYS :: "(jsstring \<times> jsstring) list" where
  "PROVIDER_API_KEYS =
     [(js ''google'', js ''GOOGLE_API_KEY''),
      (js ''openai'', js ''OPENAI_API_KEY''),
      (js ''anthropic'', js ''ANTHROPIC_API_KEY''),
      (js ''deepseek'', js ''DEEPSEEK_API_KEY''),
      (js ''xai'', js ''XAI_API_KEY''),
      (js ''mistral'', js ''MISTRAL_API_KEY'')]"

definition FREE_PROVIDERS :: "jsstring list" where
  "FREE_PROVIDERS = [js ''zai'', js ''opencode'']"

definition allowedProviders :: "jsstring list" where
  "allowedProviders =
     [js ''zai'', js ''opencode'', js ''google'', js ''openai'', js ''deepseek'', js ''xai'',
      js ''anthropic'', js ''mistral'']"

text \<open>
  \<open>PROVIDER_API_KEYS\<close> is an object literal, and \<open>PROVIDER_API_KEYS[providerId]\<close> is a
  property read: for a name that is not one of its six keys it finds the member of that
  name that every object inherits from \<open>Object.prototype\<close>, if there is one (a function,
  or the prototype itself for \<open>__proto__\<close>: a truthy value that is not a string), and is
  \<open>undefined\<close> otherwise.
\<close>

definition objectPrototypeMembers :: "jsstring list" where
  "objectPrototypeMembers =
     [js ''constructor'', js ''hasOwnProperty'', js ''isPrototypeOf'',
      js ''propertyIsEnumerable'', js ''toLocaleString'', js ''toString'', js ''valueOf'',
      js ''__proto__'', js ''__defineGetter__'', js ''__defineSetter__'',
      js ''__lookupGetter__'', js ''__lookupSetter__'']"

datatype property = Own jsstring | Inherited jsstring | Undefined

definition read_PROVIDER_API_KEYS :: "jsstring \<Rightarrow> property" where
  "read_PROVIDER_API_KEYS providerId =
     (case map_of PROVIDER_API_KEYS providerId of
        Some envVar \<Rightarrow> Own envVar
      | None \<Rightarrow> if providerId \<in> set objectPrototypeMembers then Inherited providerId else Undefined)"

text \<open>
  The process environment: the variables, and how the engine prints an inherited member
  when it is used as a property name of \<open>process.env\<close> (the text of a native function).
\<close>

record Environment =
  variables :: "jsstring \<rightharpoonup> jsstring"
  printed :: "jsstring \<Rightarrow> jsstring"

definition requiresApiKey :: "jsstring \<Rightarrow> bool" where
  "requiresApiKey providerId \<longleftrightarrow> providerId \<notin> set FREE_PROVIDERS"

definition hasApiKey :: "Environment \<Rightarrow> jsstring \<Rightarrow> bool" where
  "hasApiKey env providerId =
     (case read_PROVIDER_API_KEYS providerId of
        Undefined \<Rightarrow> True
      | Own envVar \<Rightarrow> if envVar \<noteq> [] then truthy_str (variables env envVar) else True
      | Inherited member \<Rightarrow> truthy_str (variables env (printed env member)))"

text \<open>An environment without variables.\<close>

definition no_variables :: Environment where
  "no_variables = \<lparr>variables = Map.empty, printed = (\<lambda>member. js ''function () { [native code] }'')\<rparr>"

section \<open>Example agents, events and servers\<close>

text \<open>Concrete values for the examples: an agent that is started and has a session, a
  \<open>session.error\<close> event, a \<open>message.updated\<close> event of the assistant with token counts,
  a server that creates a session, and servers whose event source delivers the given
  events and then throws, stays open, or completes.\<close>

definition ready_agent :: "string \<Rightarrow> string \<Rightarrow> SupportAgent" where
  "ready_agent model sid =
     \<lparr>client = Some \<lparr>baseUrl = js ''http://127.0.0.1:4096'', directory = None\<rparr>,
      serverProc = Some 1, currentSessionId = Some (js sid), repositoryPath = None,
      currentModel = js model, currentMode = Medium\<rparr>"

definition fresh_agent :: "string \<Rightarrow> SupportAgent" where
  "fresh_agent model =
     \<lparr>client = Some \<lparr>baseUrl = js ''http://127.0.0.1:4096'', directory = None\<rparr>,
      serverProc = Some 1, currentSessionId = None, repositoryPath = None,
      currentModel = js model, currentMode = Medium\<rparr>"

definition error_event :: "string option \<Rightarrow> string option \<Rightarrow> string option \<Rightarrow> Event" where
  "error_event sid msg name =
     \<lparr>etype = js ''session.error'',
      properties = \<lparr>sessionID = map_option js sid, part = None, info = None,
        error = Some \<lparr>error_data = Some \<lparr>data_message = map_option js msg\<rparr>,
                       error_name = map_option js name\<rparr>\<rparr>\<rparr>"

definition usage_event :: "Tokens \<Rightarrow> Event" where
  "usage_event tokens =
     \<lparr>etype = js ''message.updated'',
      properties = \<lparr>sessionID = None, part = None,
        info = Some \<lparr>info_role = Some (js ''assistant''), info_tokens = Some tokens, info_cost = None\<rparr>,
        error = None\<rparr>\<rparr>"

definition counts :: "int option \<Rightarrow> int option \<Rightarrow> int option \<Rightarrow> int option \<Rightarrow> int option \<Rightarrow> Tokens" where
  "counts i p out c t =
     \<lparr>tokens_input = i, tokens_prompt = p, tokens_output = out, tokens_completion = c, tokens_total = t\<rparr>"

definition creating :: "string \<Rightarrow> Event list \<Rightarrow> Server" where
  "creating sid evs = \<lparr>on_create = CreateData (js sid), on_subscribe = Subscribed evs StreamEnds\<rparr>"

definition breaking :: "Event list \<Rightarrow> string \<Rightarrow> Server" where
  "breaking evs msg = \<lparr>on_create = CreateNoData, on_subscribe = Subscribed evs (StreamThrows (js msg))\<rparr>"

definition silent :: "Event list \<Rightarrow> Server" where
  "silent evs = \<lparr>on_create = CreateNoData, on_subscribe = Subscribed evs StreamStaysOpen\<rparr>"

definition streaming :: "Event list \<Rightarrow> Server" where
  "streaming evs = \<lparr>on_create = CreateNoData, on_subscribe = Subscribed evs StreamEnds\<rparr>"

section \<open>Basic facts on strings\<close>

lemma of_char_bound: "(of_char c :: nat) < 256"
proof -
  have "(of_char c :: nat) mod 256 = of_char c" by (rule of_char_mod_256)
  then show ?thesis by (metis mod_less_divisor zero_less_numeral)
qed

lemma unit_of_inj: "unit_of a = unit_of b \<longleftrightarrow> a = b"
proof
  assume "unit_of a = unit_of b"
  then have "take_bit 16 (of_char a :: nat) = take_bit 16 (of_char b :: nat)"
    by (simp add: unit_of_def word_of_nat_eq_iff)
  moreover have "(of_char a :: nat) < 2 ^ 16"
    by (rule less_trans [OF of_char_bound]) simp
  moreover have "(of_char b :: nat) < 2 ^ 16"
    by (rule less_trans [OF of_char_bound]) simp
  ultimately have "(of_char a :: nat) = of_char b"
    by (simp add: take_bit_nat_eq_self)
  then show "a = b" by simp
qed simp

lemma js_inj [simp]: "js a = js b \<longleftrightarrow> a = b"
proof -
  have "inj unit_of" by (simp add: inj_def unit_of_inj)
  then show ?thesis unfolding js_def by (rule inj_map_eq_map)
qed

lemma js_Nil [simp]: "js [] = []"
  by (simp add: js_def)

lemma js_eq_Nil [simp]: "js s = [] \<longleftrightarrow> s = []"
  by (simp add: js_def)

text \<open>Unfolding the examples.\<close>

lemmas ev_simps = extractAnswerFromEvents_def collect_part_def part_updated_def plain_event_def
  trim_def isSpace_def js_def unit_of_def

lemmas fixture_simps = ready_agent_def error_event_def usage_event_def counts_def streaming_def
  part_updated_def plain_event_def

lemmas query_simps = query_def sessionEvents_def pump_def on_event_def modelSelector_def element_def
  usage_of_def error_text_def error_message_def error_name_of_def
  extractAnswerFromEvents_def collect_part_def trim_def isSpace_def Let_def

lemmas provider_simps = hasApiKey_def read_PROVIDER_API_KEYS_def PROVIDER_API_KEYS_def
  objectPrototypeMembers_def no_variables_def requiresApiKey_def FREE_PROVIDERS_def allowedProviders_def

section \<open>The event stream filter: properties\<close>

lemma gen_no_idle:
  "\<forall>e \<in> set evs. \<not> target_idle sid e \<Longrightarrow> gen sid evs fin = (filter (qualifies sid) evs, fin)"
  by (induction evs) (auto simp: qualifies_def target_idle_def Let_def)

lemma gen_first_idle:
  "\<forall>e \<in> set pre. \<not> target_idle sid e \<Longrightarrow> target_idle sid i \<Longrightarrow>
   gen sid (pre @ i # post) fin = (filter (qualifies sid) pre @ [i], StreamEnds)"
  by (induction pre) (auto simp: qualifies_def target_idle_def Let_def)

text \<open>
  Claim C1. For every sequence of global events and every target session, the filter
  yields exactly the events that carry no \<open>sessionID\<close> or the target's, in source order,
  up to and including the first idle event of the target: when the source has no such
  idle event, all qualifying events are yielded and the sequence finishes as the source
  does; when the source is \<open>pre\<close>, the first idle event \<open>i\<close> of the target, then \<open>post\<close>,
  the qualifying events of \<open>pre\<close> and then \<open>i\<close> are yielded and nothing of \<open>post\<close>.
\<close>

theorem sessionEvents_filters_until_idle:
  "((\<forall>e \<in> set evs. \<not> target_idle sid e) \<longrightarrow>
      sessionEvents sid (Subscribed evs fin) = Inr (filter (qualifies sid) evs, fin)) \<and>
   ((\<forall>e \<in> set pre. \<not> target_idle sid e) \<and> target_idle sid i \<longrightarrow>
      sessionEvents sid (Subscribed (pre @ i # post) fin) =
        Inr (filter (qualifies sid) pre @ [i], StreamEnds))"
  by (simp add: sessionEvents_def gen_no_idle gen_first_idle)

theorem sessionEvents_filters_until_idle_witness:
  "sessionEvents (js ''s1'')
     (Subscribed [plain_event ''server.connected'' None, plain_event ''session.idle'' (Some ''s2''),
                  part_updated ''a'' None ''Hi''] (StreamThrows (js ''closed''))) =
     Inr ([plain_event ''server.connected'' None, part_updated ''a'' None ''Hi''], StreamThrows (js ''closed'')) \<and>
   sessionEvents (js ''s1'')
     (Subscribed ([plain_event ''session.idle'' (Some ''s2''), part_updated ''a'' None ''Hi''] @
                  plain_event ''session.idle'' (Some ''s1'') # [part_updated ''a'' None ''late''])
        (StreamThrows (js ''closed''))) =
     Inr ([part_updated ''a'' None ''Hi'', plain_event ''session.idle'' (Some ''s1'')], StreamEnds)"
proof -
  let ?sid = "js ''s1''"
  let ?evs = "[plain_event ''server.connected'' None, plain_event ''session.idle'' (Some ''s2''),
               part_updated ''a'' None ''Hi'']"
  let ?pre = "[plain_event ''session.idle'' (Some ''s2''), part_updated ''a'' None ''Hi'']"
  let ?i = "plain_event ''session.idle'' (Some ''s1'')"
  have h1: "\<forall>e \<in> set ?evs. \<not> target_idle ?sid e"
    by (simp add: target_idle_def plain_event_def part_updated_def)
  have h2: "(\<forall>e \<in> set ?pre. \<not> target_idle ?sid e) \<and> target_idle ?sid ?i"
    by (simp add: target_idle_def plain_event_def part_updated_def)
  have f1: "filter (qualifies ?sid) ?evs = [plain_event ''server.connected'' None, part_updated ''a'' None ''Hi'']"
    by (simp add: qualifies_def plain_event_def part_updated_def)
  have f2: "filter (qualifies ?sid) ?pre = [part_updated ''a'' None ''Hi'']"
    by (simp add: qualifies_def plain_event_def part_updated_def)
  from sessionEvents_filters_until_idle [of ?evs ?sid "StreamThrows (js ''closed'')" ?pre ?i "[part_updated ''a'' None ''late'']"]
    h1 h2 f1 f2
  show ?thesis by simp
qed

section \<open>The answer assembler: properties\<close>

lemma first_seen_snoc:
  "first_seen (xs @ [x]) = (if x \<in> set xs then first_seen xs else first_seen xs @ [x])"
  by (simp add: first_seen_def)

lemma set_first_seen [simp]: "set (first_seen xs) = set xs"
  by (simp add: first_seen_def)

lemma first_seen_append_seen:
  "set ys \<subseteq> set xs \<Longrightarrow> first_seen (xs @ ys) = first_seen xs"
proof (induction ys rule: rev_induct)
  case Nil
  then show ?case by simp
next
  case (snoc y ys)
  then have "first_seen ((xs @ ys) @ [y]) = first_seen (xs @ ys)"
    by (subst first_seen_snoc) auto
  with snoc show ?case by simp
qed

lemma latest_text_snoc:
  "latest_text (ps @ [p]) i = (if part_id p = i then recorded_text p else latest_text ps i)"
  by (simp add: latest_text_def)

lemma latest_text_twice: "latest_text (ps @ ps) i = latest_text ps i"
  by (cases "rev (filter (\<lambda>p. part_id p = i) ps)") (simp_all add: latest_text_def)

lemma contributing_append:
  "contributing (xs @ ys) = contributing xs @ contributing ys"
  by (simp add: contributing_def List.map_filter_def)

lemma contributing_single:
  "contributing [e] = (case text_part e of None \<Rightarrow> [] | Some p \<Rightarrow> [p])"
  by (simp add: contributing_def List.map_filter_def split: option.splits)

lemma text_part_in_contributing:
  "e \<in> set evs \<Longrightarrow> text_part e = Some p \<Longrightarrow> p \<in> set (contributing evs)"
  by (force simp: contributing_def List.map_filter_def)

lemma collect_part_text_part:
  "collect_part (ids, txt) e =
     (case text_part e of
        None \<Rightarrow> (ids, txt)
      | Some p \<Rightarrow> (if part_id p \<in> set ids then ids else ids @ [part_id p],
                   txt(part_id p \<mapsto> recorded_text p)))"
  by (auto simp: collect_part_def text_part_def recorded_text_def split: option.splits)

lemma collect_invariant:
  "foldl collect_part ([], Map.empty) evs =
     (first_seen (map part_id (contributing evs)), text_map (contributing evs))"
proof (induction evs rule: rev_induct)
  case Nil
  show ?case by (simp add: contributing_def List.map_filter_def first_seen_def text_map_def fun_eq_iff)
next
  case (snoc e evs)
  show ?case
  proof (cases "text_part e")
    case None
    then show ?thesis
      using snoc by (simp add: collect_part_text_part contributing_append contributing_single)
  next
    case (Some p)
    have "(text_map (contributing evs))(part_id p \<mapsto> recorded_text p) = text_map (contributing evs @ [p])"
      by (auto simp: text_map_def latest_text_snoc fun_eq_iff)
    then show ?thesis
      using snoc Some
      by (simp add: collect_part_text_part contributing_append contributing_single first_seen_snoc)
  qed
qed

lemma extract_assembled: "extractAnswerFromEvents evs = assembled evs"
proof -
  let ?ps = "contributing evs"
  have eq: "map (\<lambda>i. case text_map ?ps i of None \<Rightarrow> [] | Some t \<Rightarrow> t) (first_seen (map part_id ?ps))
        = map (latest_text ?ps) (first_seen (map part_id ?ps))"
    by (rule map_cong) (auto simp: text_map_def)
  show ?thesis
    by (simp add: extractAnswerFromEvents_def collect_invariant assembled_def Let_def eq)
qed

lemma contributing_without_user:
  "contributing (filter (\<lambda>e. \<not> user_part_event e) evs) = contributing evs"
proof (induction evs)
  case Nil
  show ?case by simp
next
  case (Cons e evs)
  have "user_part_event e \<Longrightarrow> text_part e = None"
    by (auto simp: user_part_event_def text_part_def split: option.splits)
  with Cons show ?case
    by (simp add: contributing_def List.map_filter_simps split: option.splits)
qed

lemma assembled_twice: "assembled (evs @ evs) = assembled evs"
  by (simp add: assembled_def Let_def contributing_append first_seen_append_seen latest_text_twice cong: map_cong)

lemma assembled_redelivered:
  assumes "e \<in> set evs"
    and "\<And>p. text_part e = Some p \<Longrightarrow> latest_text (contributing evs) (part_id p) = recorded_text p"
  shows "assembled (evs @ [e]) = assembled evs"
proof (cases "text_part e")
  case None
  then show ?thesis by (simp add: assembled_def contributing_append contributing_single)
next
  case (Some p)
  let ?ps = "contributing evs"
  have mem: "p \<in> set ?ps" using assms(1) Some by (rule text_part_in_contributing)
  have ids: "first_seen (map part_id ?ps @ [part_id p]) = first_seen (map part_id ?ps)"
    using mem by (simp add: first_seen_append_seen)
  have "latest_text (?ps @ [p]) i = latest_text ?ps i" for i
    using assms(2) [OF Some] by (auto simp: latest_text_snoc)
  then have "latest_text (?ps @ [p]) = latest_text ?ps" by (simp add: fun_eq_iff)
  with ids Some show ?thesis
    by (simp add: assembled_def Let_def contributing_append contributing_single)
qed

text \<open>
  Claim C2. For every list of collected events, \<open>extractAnswerFromEvents\<close> returns the
  trimmed concatenation, in first-seen order of the part ids, of the latest text recorded
  for each id among the \<open>message.part.updated\<close> events whose part is of type text and
  not of role \<open>user\<close> (that is \<open>assembled\<close>); taking away the events whose part has role
  \<open>user\<close>, wherever they stand, changes nothing; and the assistant parts \<open>a: Hel\<close>,
  \<open>a: Hello\<close>, \<open>b: world\<close> with a leading space give \<open>Hello world\<close>.
\<close>

theorem extractAnswerFromEvents_assembles:
  "extractAnswerFromEvents evs = assembled evs \<and>
   extractAnswerFromEvents (filter (\<lambda>e. \<not> user_part_event e) evs) = extractAnswerFromEvents evs \<and>
   extractAnswerFromEvents
     [part_updated ''a'' (Some ''assistant'') ''Hel'', part_updated ''a'' (Some ''assistant'') ''Hello'',
      part_updated ''b'' (Some ''assistant'') '' world''] = js ''Hello world''"
proof (intro conjI)
  show "extractAnswerFromEvents evs = assembled evs"
    by (rule extract_assembled)
  show "extractAnswerFromEvents (filter (\<lambda>e. \<not> user_part_event e) evs) = extractAnswerFromEvents evs"
    by (simp add: extract_assembled assembled_def contributing_without_user)
  show "extractAnswerFromEvents
     [part_updated ''a'' (Some ''assistant'') ''Hel'', part_updated ''a'' (Some ''assistant'') ''Hello'',
      part_updated ''b'' (Some ''assistant'') '' world''] = js ''Hello world''"
    by (simp add: ev_simps)
qed

theorem extractAnswerFromEvents_assembles_witness:
  "extractAnswerFromEvents
     [part_updated ''u'' (Some ''user'') ''Say hello'', part_updated ''a'' None ''Hel'',
      plain_event ''session.status'' (Some ''s1''), part_updated ''b'' (Some ''assistant'') '' world  '',
      part_updated ''a'' None ''Hello'', part_updated ''u'' (Some ''user'') ''again''] = js ''Hello world'' \<and>
   extractAnswerFromEvents
     [part_updated ''a'' None ''Hel'',
      plain_event ''session.status'' (Some ''s1''), part_updated ''b'' (Some ''assistant'') '' world  '',
      part_updated ''a'' None ''Hello''] = js ''Hello world''"
proof -
  let ?evs = "[part_updated ''u'' (Some ''user'') ''Say hello'', part_updated ''a'' None ''Hel'',
      plain_event ''session.status'' (Some ''s1''), part_updated ''b'' (Some ''assistant'') '' world  '',
      part_updated ''a'' None ''Hello'', part_updated ''u'' (Some ''user'') ''again'']"
  have a: "assembled ?evs = js ''Hello world''"
    by (simp add: assembled_def contributing_def List.map_filter_def text_part_def first_seen_def
        latest_text_def recorded_text_def part_updated_def plain_event_def trim_def isSpace_def js_def unit_of_def)
  have f: "filter (\<lambda>e. \<not> user_part_event e) ?evs = [part_updated ''a'' None ''Hel'',
      plain_event ''session.status'' (Some ''s1''), part_updated ''b'' (Some ''assistant'') '' world  '',
      part_updated ''a'' None ''Hello'']"
    by (simp add: user_part_event_def part_updated_def plain_event_def)
  from extractAnswerFromEvents_assembles [of ?evs] a f show ?thesis by simp
qed

text \<open>
  Claim C7, as amended. Replaying the full event list twice gives the answer of
  processing it once. Delivering an event of the list once more, at the end, gives the
  same answer when the event does not contribute or when its text is still the latest
  text recorded for its part id. The claim allows any earlier event: but the latest
  update of a part wins, so delivering again an update that a later one has superseded
  brings the old text back (the counterexample: \<open>Hel\<close>, \<open>Hello\<close>, then \<open>Hel\<close> again).
\<close>

theorem extractAnswerFromEvents_redelivery:
  "extractAnswerFromEvents (evs @ evs) = extractAnswerFromEvents evs \<and>
   (e \<in> set evs \<and>
    (\<forall>p. text_part e = Some p \<longrightarrow> latest_text (contributing evs) (part_id p) = recorded_text p)
    \<longrightarrow> extractAnswerFromEvents (evs @ [e]) = extractAnswerFromEvents evs)"
  by (simp add: extract_assembled assembled_twice assembled_redelivered)

theorem extractAnswerFromEvents_redelivery_witness:
  "extractAnswerFromEvents
     ([part_updated ''a'' None ''Hel'', part_updated ''a'' None ''Hello'', part_updated ''b'' None '' world''] @
      [part_updated ''a'' None ''Hel'', part_updated ''a'' None ''Hello'', part_updated ''b'' None '' world'']) =
     js ''Hello world'' \<and>
   extractAnswerFromEvents
     ([part_updated ''a'' None ''Hel'', part_updated ''a'' None ''Hello'', part_updated ''b'' None '' world''] @
      [part_updated ''a'' None ''Hello'']) = js ''Hello world''"
proof -
  let ?evs = "[part_updated ''a'' None ''Hel'', part_updated ''a'' None ''Hello'', part_updated ''b'' None '' world'']"
  let ?e = "part_updated ''a'' None ''Hello''"
  have v: "extractAnswerFromEvents ?evs = js ''Hello world''"
    by (simp add: ev_simps)
  have h1: "?e \<in> set ?evs" by simp
  have h2: "\<forall>p. text_part ?e = Some p \<longrightarrow> latest_text (contributing ?evs) (part_id p) = recorded_text p"
    by (simp add: contributing_def List.map_filter_def text_part_def latest_text_def recorded_text_def
        part_updated_def js_def unit_of_def)
  from extractAnswerFromEvents_redelivery [of ?evs ?e] v h1 h2 show ?thesis by simp
qed

theorem extractAnswerFromEvents_redelivery_counterexample:
  "part_updated ''a'' None ''Hel'' \<in> set [part_updated ''a'' None ''Hel'', part_updated ''a'' None ''Hello''] \<and>
   extractAnswerFromEvents [part_updated ''a'' None ''Hel'', part_updated ''a'' None ''Hello''] = js ''Hello'' \<and>
   extractAnswerFromEvents
     ([part_updated ''a'' None ''Hel'', part_updated ''a'' None ''Hello''] @ [part_updated ''a'' None ''Hel''])
     = js ''Hel''"
  by (simp add: ev_simps)

section \<open>The event loop of a query: properties\<close>

lemma last_option_snoc [simp]: "last_option (xs @ [x]) = Some x"
  by (simp add: last_option_def)

lemma last_option_Nil [simp]: "last_option [] = None"
  by (simp add: last_option_def)

lemma on_event_fields:
  "collectedEvents (on_event st e) = collectedEvents st @ [e]"
  "sessionError (on_event st e) =
     (if session_error e then Some (error_text (properties e)) else sessionError st)"
  "usage (on_event st e) = (case usage_report e of None \<Rightarrow> usage st | Some u \<Rightarrow> Some u)"
  by (auto simp: on_event_def session_error_def usage_report_def Let_def split: option.splits)

lemma foldl_on_event:
  "collectedEvents (foldl on_event st ys) = collectedEvents st @ ys"
  "sessionError (foldl on_event st ys) =
     (case last_option (filter session_error ys) of
        None \<Rightarrow> sessionError st
      | Some e \<Rightarrow> Some (error_text (properties e)))"
  "usage (foldl on_event st ys) =
     (case last_option (List.map_filter usage_report ys) of None \<Rightarrow> usage st | Some u \<Rightarrow> Some u)"
  by (induction ys rule: rev_induct)
     (simp_all add: on_event_fields List.map_filter_def split: option.splits)

lemma pump_fields:
  "collectedEvents (pump (ys, fin)) = ys"
  "usage (pump (ys, fin)) = last_option (List.map_filter usage_report ys)"
  "sessionError (pump (ys, StreamEnds)) = map_option (\<lambda>e. error_text (properties e)) (last_option (filter session_error ys))"
  "sessionError (pump (ys, StreamThrows msg)) = Some msg"
  by (simp_all add: pump_def Let_def foldl_on_event split: stream_end.splits option.splits)

lemma error_text_truthy: "error_text props \<noteq> []"
  by (cases "error_message props"; cases "error_name_of props") (simp_all add: error_text_def)

lemma query_pumped:
  assumes "client agent = Some c"
    and "session_for srv agent = Some sid"
    and "on_subscribe srv = Subscribed evs fin"
  shows "result (query srv input src agent) =
     (let st = pump (gen sid evs fin);
          responseText = extractAnswerFromEvents (collectedEvents st)
      in if snd (gen sid evs fin) = StreamStaysOpen then Pending
         else if truthy_str (sessionError st)
         then Rejected (case sessionError st of None \<Rightarrow> [] | Some msg \<Rightarrow> msg)
         else Fulfilled \<lparr>response = (if responseText \<noteq> [] then responseText else js ''(No response received)''),
                   tokenUsage = usage st\<rparr>)"
proof (cases "truthy_str (currentSessionId agent)")
  case True
  with assms(2) have "currentSessionId agent = Some sid"
    by (simp add: session_for_def)
  with True assms(1,3) show ?thesis
    by (simp add: query_def sessionEvents_def Let_def split: prod.split)
next
  case False
  with assms(2) have "on_create srv = CreateData sid"
    by (simp add: session_for_def split: creation.splits)
  with False assms(1,3) show ?thesis
    by (simp add: query_def sessionEvents_def Let_def split: prod.split)
qed

lemma error_text_captured: "error_text (properties e) = captured_message e"
  by (simp add: error_text_def error_message_def error_name_of_def captured_message_def
      structured_message_def named_error_def split: option.splits)

text \<open>
  Claim C3, as amended. When the stream that \<open>query\<close> consumes holds a \<open>session.error\<close>
  event and then ends without a transport failure, \<open>query\<close> fails with the message
  captured from the last such event, whatever text updates follow it: with its
  structured message when that is a non-empty string; otherwise with its error name
  when that is a non-empty string; otherwise with the text \<open>Unknown error occurred\<close>. A
  later \<open>session.error\<close> overwrites the message of an earlier one, the message of a
  stream that throws overwrites both, and the loop waits as long as the stream stays
  open: the claim, which promises the message of any \<open>session.error\<close> event of the
  stream, fails on a stream with two of them, on a stream that breaks after one, and on
  a stream that stays open after one without the idle event (the counterexample).
\<close>

theorem query_fails_with_last_session_error:
  assumes "client agent = Some c"
    and "session_for srv agent = Some sid"
    and "on_subscribe srv = Subscribed evs fin"
    and "gen sid evs fin = (ys, StreamEnds)"
    and "last_option (filter session_error ys) = Some e"
  shows "result (query srv input src agent) = Rejected (captured_message e) \<and>
    (\<forall>payload d m. error (properties e) = Some payload \<and> error_data payload = Some d \<and>
        data_message d = Some m \<and> m \<noteq> [] \<longrightarrow>
        result (query srv input src agent) = Rejected m) \<and>
    (\<forall>payload n. structured_message e = None \<and> error (properties e) = Some payload \<and>
        error_name payload = Some n \<and> n \<noteq> [] \<longrightarrow>
        result (query srv input src agent) = Rejected n) \<and>
    (structured_message e = None \<and> named_error e = None \<longrightarrow>
        result (query srv input src agent) = Rejected (js ''Unknown error occurred''))"
proof -
  have r: "result (query srv input src agent) = Rejected (captured_message e)"
    using assms(4,5) error_text_truthy [of "properties e"]
    by (simp add: query_pumped [OF assms(1-3)] pump_fields Let_def error_text_captured)
  show ?thesis
    unfolding r
    by (auto simp: captured_message_def structured_message_def named_error_def)
qed

theorem query_fails_with_last_session_error_witness:
  "result (query
     (streaming [error_event (Some ''s2'') (Some ''other session'') None,
                 error_event (Some ''s1'') (Some ''Invalid API key'') (Some ''ProviderAuthError''),
                 part_updated ''a'' None ''partial answer'',
                 plain_event ''session.idle'' (Some ''s1''),
                 error_event (Some ''s1'') (Some ''too late'') None])
     (js ''hi'') None (ready_agent ''openai/gpt-5'' ''s1'')) = Rejected (js ''Invalid API key'') \<and>
   result (query
     (streaming [error_event (Some ''s1'') (Some '''') (Some ''ProviderAuthError''),
                 part_updated ''a'' None ''partial answer''])
     (js ''hi'') None (ready_agent ''openai/gpt-5'' ''s1'')) = Rejected (js ''ProviderAuthError'') \<and>
   result (query
     (streaming [error_event None None (Some ''''), part_updated ''a'' None ''partial answer'',
                 plain_event ''session.idle'' (Some ''s1'')])
     (js ''hi'') None (ready_agent ''openai/gpt-5'' ''s1'')) = Rejected (js ''Unknown error occurred'')"
proof -
  let ?agent = "ready_agent ''openai/gpt-5'' ''s1''"
  let ?c = "\<lparr>baseUrl = js ''http://127.0.0.1:4096'', directory = None\<rparr>"
  let ?e1 = "error_event (Some ''s1'') (Some ''Invalid API key'') (Some ''ProviderAuthError'')"
  let ?evs1 = "[error_event (Some ''s2'') (Some ''other session'') None, ?e1,
               part_updated ''a'' None ''partial answer'',
               plain_event ''session.idle'' (Some ''s1''),
               error_event (Some ''s1'') (Some ''too late'') None]"
  let ?ys1 = "[?e1, part_updated ''a'' None ''partial answer'', plain_event ''session.idle'' (Some ''s1'')]"
  let ?e2 = "error_event (Some ''s1'') (Some '''') (Some ''ProviderAuthError'')"
  let ?evs2 = "[?e2, part_updated ''a'' None ''partial answer'']"
  let ?e3 = "error_event None None (Some '''')"
  let ?evs3 = "[?e3, part_updated ''a'' None ''partial answer'', plain_event ''session.idle'' (Some ''s1'')]"
  have c: "client ?agent = Some ?c" by (simp add: ready_agent_def)
  have s: "session_for srv ?agent = Some (js ''s1'')" for srv
    by (simp add: session_for_def ready_agent_def)
  have sub: "on_subscribe (streaming evs) = Subscribed evs StreamEnds" for evs
    by (simp add: streaming_def)
  have g1: "gen (js ''s1'') ?evs1 StreamEnds = (?ys1, StreamEnds)"
    and g2: "gen (js ''s1'') ?evs2 StreamEnds = (?evs2, StreamEnds)"
    and g3: "gen (js ''s1'') ?evs3 StreamEnds = (?evs3, StreamEnds)"
    by (simp_all add: fixture_simps)
  have l1: "last_option (filter session_error ?ys1) = Some ?e1"
    and l2: "last_option (filter session_error ?evs2) = Some ?e2"
    and l3: "last_option (filter session_error ?evs3) = Some ?e3"
    by (simp_all add: last_option_def session_error_def fixture_simps)
  let ?d1 = "\<lparr>data_message = Some (js ''Invalid API key'')\<rparr>"
  let ?p1 = "\<lparr>error_data = Some ?d1, error_name = Some (js ''ProviderAuthError'')\<rparr>"
  let ?p2 = "\<lparr>error_data = Some \<lparr>data_message = Some []\<rparr>, error_name = Some (js ''ProviderAuthError'')\<rparr>"
  have f1: "error (properties ?e1) = Some ?p1 \<and> error_data ?p1 = Some ?d1 \<and>
            data_message ?d1 = Some (js ''Invalid API key'') \<and> js ''Invalid API key'' \<noteq> []"
    by (simp add: error_event_def)
  have f2: "structured_message ?e2 = None \<and> error (properties ?e2) = Some ?p2 \<and>
            error_name ?p2 = Some (js ''ProviderAuthError'') \<and> js ''ProviderAuthError'' \<noteq> []"
    by (simp add: structured_message_def error_event_def)
  have f3: "structured_message ?e3 = None \<and> named_error ?e3 = None"
    by (simp add: structured_message_def named_error_def error_event_def)
  from query_fails_with_last_session_error [OF c s sub g1 l1, of "js ''hi''" None] f1
  have r1: "result (query (streaming ?evs1) (js ''hi'') None ?agent) = Rejected (js ''Invalid API key'')"
    by blast
  from query_fails_with_last_session_error [OF c s sub g2 l2, of "js ''hi''" None] f2
  have r2: "result (query (streaming ?evs2) (js ''hi'') None ?agent) = Rejected (js ''ProviderAuthError'')"
    by blast
  from query_fails_with_last_session_error [OF c s sub g3 l3, of "js ''hi''" None] f3
  have r3: "result (query (streaming ?evs3) (js ''hi'') None ?agent) = Rejected (js ''Unknown error occurred'')"
    by blast
  from r1 r2 r3 show ?thesis by blast
qed

theorem query_fails_with_last_session_error_counterexample:
  "gen (js ''s1'')
     [error_event (Some ''s1'') (Some ''first'') None, error_event (Some ''s1'') (Some ''second'') None,
      plain_event ''session.idle'' (Some ''s1'')] StreamEnds =
     ([error_event (Some ''s1'') (Some ''first'') None, error_event (Some ''s1'') (Some ''second'') None,
       plain_event ''session.idle'' (Some ''s1'')], StreamEnds) \<and>
   session_error (error_event (Some ''s1'') (Some ''first'') None) \<and>
   error_text (properties (error_event (Some ''s1'') (Some ''first'') None)) = js ''first'' \<and>
   result (query
     (streaming [error_event (Some ''s1'') (Some ''first'') None,
                 error_event (Some ''s1'') (Some ''second'') None,
                 plain_event ''session.idle'' (Some ''s1'')])
     (js ''hi'') None (ready_agent ''openai/gpt-5'' ''s1'')) = Rejected (js ''second'') \<and>
   gen (js ''s1'') [error_event (Some ''s1'') (Some ''first'') None] (StreamThrows (js ''socket closed'')) =
     ([error_event (Some ''s1'') (Some ''first'') None], StreamThrows (js ''socket closed'')) \<and>
   result (query
     (breaking [error_event (Some ''s1'') (Some ''first'') None] ''socket closed'')
     (js ''hi'') None (ready_agent ''openai/gpt-5'' ''s1'')) = Rejected (js ''socket closed'') \<and>
   gen (js ''s1'') [error_event (Some ''s1'') (Some ''first'') None] StreamStaysOpen =
     ([error_event (Some ''s1'') (Some ''first'') None], StreamStaysOpen) \<and>
   result (query
     (silent [error_event (Some ''s1'') (Some ''first'') None])
     (js ''hi'') None (ready_agent ''openai/gpt-5'' ''s1'')) = Pending"
  by (simp add: fixture_simps breaking_def silent_def query_simps session_error_def)

text \<open>The token usage of a query that returns is the one reported last; the total is
  the sum of the two counts when they arrive as \<open>input\<close> and \<open>output\<close> without a total;
  and the two examples of the specification hold.\<close>

lemma query_usage_last_report:
  assumes "client agent = Some c"
    and "session_for srv agent = Some sid"
    and "on_subscribe srv = Subscribed evs fin"
    and "result (query srv input src agent) = Fulfilled r"
  shows "tokenUsage r = last_option (List.map_filter usage_report (fst (gen sid evs fin)))"
  using assms(4)
  by (cases "gen sid evs fin")
     (auto simp: query_pumped [OF assms(1-3)] pump_fields Let_def split: if_splits)

lemma usage_of_sum:
  assumes "num_or (tokens_prompt tokens) 0 = 0" and "num_or (tokens_completion tokens) 0 = 0"
    and "num_or (tokens_total tokens) 0 = 0"
  shows "totalTokens (usage_of tokens c) = inputTokens (usage_of tokens c) + outputTokens (usage_of tokens c)"
  using assms
  by (cases "tokens_total tokens"; cases "tokens_input tokens"; cases "tokens_output tokens")
     (auto simp: usage_of_def split: if_splits)

lemma query_usage_examples:
  "result (query
     (streaming [usage_event (counts (Some 10) None (Some 5) None None),
                 usage_event (counts (Some 10) None (Some 5) None (Some 16)),
                 plain_event ''session.idle'' (Some ''s1'')])
     (js ''hi'') None (ready_agent ''openai/gpt-5'' ''s1'')) =
   Fulfilled \<lparr>response = js ''(No response received)'',
        tokenUsage = Some \<lparr>inputTokens = 10, outputTokens = 5, totalTokens = 16, cost = None\<rparr>\<rparr>"
  "result (query
     (streaming [usage_event (counts (Some 3) None (Some 2) None None),
                 plain_event ''session.idle'' (Some ''s1'')])
     (js ''hi'') None (ready_agent ''openai/gpt-5'' ''s1'')) =
   Fulfilled \<lparr>response = js ''(No response received)'',
        tokenUsage = Some \<lparr>inputTokens = 3, outputTokens = 2, totalTokens = 5, cost = None\<rparr>\<rparr>"
  by (simp_all add: fixture_simps query_simps)

text \<open>
  Claim C4. The total is \<open>tokens.total || (tokens.input || 0) + (tokens.output || 0)\<close>,
  while \<open>inputTokens\<close> and \<open>outputTokens\<close> fall back to \<open>tokens.prompt\<close> and
  \<open>tokens.completion\<close>. For counts that arrive under these two names and without a total,
  the code returns \<open>inputTokens = 10\<close>, \<open>outputTokens = 5\<close> and \<open>totalTokens = 0\<close>, where the
  claim has \<open>totalTokens = inputTokens + outputTokens = 15\<close>.
\<close>

theorem query_total_ignores_prompt_completion:
  "result (query
     (streaming [usage_event (counts None (Some 10) None (Some 5) None),
                 plain_event ''session.idle'' (Some ''s1'')])
     (js ''hi'') None (ready_agent ''openai/gpt-5'' ''s1'')) =
   Fulfilled \<lparr>response = js ''(No response received)'',
        tokenUsage = Some \<lparr>inputTokens = 10, outputTokens = 5, totalTokens = 0, cost = None\<rparr>\<rparr>"
  by (simp add: fixture_simps query_simps)

lemma split_without_separator: "sep \<notin> set s \<Longrightarrow> split sep s = [s]"
  by (induction s) auto

lemma query_result_any_model:
  "result (query srv input src (agent\<lparr>currentModel := m\<rparr>)) = result (query srv input src agent)"
proof (cases "client agent")
  case None
  then show ?thesis by (simp add: query_def)
next
  case (Some c)
  show ?thesis
  proof (cases "session_for srv agent")
    case None
    then have falsy: "\<not> truthy_str (currentSessionId agent)"
      by (auto simp: session_for_def split: if_splits)
    show ?thesis
    proof (cases "on_create srv")
      case (CreateData i)
      with None falsy show ?thesis by (simp add: session_for_def)
    next
      case CreateNoData
      with Some falsy show ?thesis by (simp add: query_def Let_def)
    next
      case (CreateRejects msg)
      with Some falsy show ?thesis by (simp add: query_def Let_def)
    qed
  next
    case sess: (Some sid)
    have "session_for srv (agent\<lparr>currentModel := m\<rparr>) = session_for srv agent"
      by (simp add: session_for_def)
    with sess have same: "session_for srv (agent\<lparr>currentModel := m\<rparr>) = Some sid"
      by simp
    show ?thesis
    proof (cases "on_subscribe srv")
      case (SubscribeRejects msg)
      show ?thesis
      proof (cases "truthy_str (currentSessionId agent)")
        case True
        with Some SubscribeRejects show ?thesis
          by (simp add: query_def sessionEvents_def Let_def split: prod.split)
      next
        case False
        with sess have "on_create srv = CreateData sid"
          by (simp add: session_for_def split: creation.splits)
        with False Some SubscribeRejects show ?thesis
          by (simp add: query_def sessionEvents_def Let_def split: prod.split)
      qed
    next
      case (Subscribed evs fin)
      from Some have c: "client (agent\<lparr>currentModel := m\<rparr>) = Some c" by simp
      show ?thesis
        by (simp only: query_pumped [OF c same Subscribed] query_pumped [OF Some sess Subscribed])
    qed
  qed
qed

lemma split_at_separator:
  "sep \<notin> set p \<Longrightarrow> split sep (p @ sep # rest) = p # split sep rest"
  by (induction p) (auto split: list.splits)

lemma modelSelector_first_two:
  assumes "0x2F \<notin> set p" and "0x2F \<notin> set q"
  shows "modelSelector (p @ 0x2F # q) = (Some p, Some q)"
    and "modelSelector (p @ 0x2F # q @ 0x2F # rest) = (Some p, Some q)"
proof -
  have "split 0x2F (p @ 0x2F # q) = [p, q]"
    using assms by (simp add: split_at_separator split_without_separator)
  then show "modelSelector (p @ 0x2F # q) = (Some p, Some q)"
    by (simp add: modelSelector_def element_def)
  have "split 0x2F (p @ 0x2F # q @ 0x2F # rest) = p # q # split 0x2F rest"
    using assms by (simp add: split_at_separator)
  then show "modelSelector (p @ 0x2F # q @ 0x2F # rest) = (Some p, Some q)"
    by (simp add: modelSelector_def element_def)
qed

lemma query_calls_subscribed:
  assumes "client agent = Some c"
    and "session_for srv agent = Some sid"
    and "on_subscribe srv = Subscribed evs fin"
  shows "calls (query srv input src agent) =
     (if truthy_str (currentSessionId agent) then [] else [SessionCreate]) @
     [EventSubscribe,
      SessionPrompt \<lparr>prompt_session = sid,
                     providerID = fst (modelSelector (currentModel agent)),
                     modelID = snd (modelSelector (currentModel agent)),
                     prompt_text = instruction input src\<rparr>]"
proof (cases "truthy_str (currentSessionId agent)")
  case True
  with assms(2) have "currentSessionId agent = Some sid"
    by (simp add: session_for_def)
  with True assms(1,3) show ?thesis
    by (simp add: query_def sessionEvents_def Let_def instruction_def split: prod.split option.split)
next
  case False
  with assms(2) have "on_create srv = CreateData sid"
    by (simp add: session_for_def split: creation.splits)
  with False assms(1,3) show ?thesis
    by (simp add: query_def sessionEvents_def Let_def instruction_def split: prod.split option.split)
qed

text \<open>
  Claim C5, as amended. The model string is split at its slashes and the first two
  pieces are taken: \<open>openai/gpt-5\<close> gives provider \<open>openai\<close> and model \<open>gpt-5\<close>, and in
  general a string \<open>p/q\<close> or \<open>p/q/rest\<close>, with no slash in \<open>p\<close> and \<open>q\<close>, gives provider
  \<open>p\<close> and model \<open>q\<close>. Nothing validates the string: for a model string without a slash
  the provider is the whole string and the model is \<open>undefined\<close>; the result of \<open>query\<close>
  is the same for every model string; and with such a string, once a session is there
  and the subscription succeeds, the prompt is submitted with that provider and an
  undefined \<open>modelID\<close>. The claim has such a string fail validation; the counterexample
  is a query that returns its answer with the model string \<open>gpt-5\<close>.
\<close>

theorem modelSelector_no_validation:
  "modelSelector (js ''openai/gpt-5'') = (Some (js ''openai''), Some (js ''gpt-5'')) \<and>
   (0x2F \<notin> set p \<and> 0x2F \<notin> set q \<longrightarrow>
      modelSelector (p @ 0x2F # q) = (Some p, Some q) \<and>
      modelSelector (p @ 0x2F # q @ 0x2F # rest) = (Some p, Some q)) \<and>
   (0x2F \<notin> set m \<longrightarrow> modelSelector m = (Some m, None)) \<and>
   result (query srv input src (agent\<lparr>currentModel := m\<rparr>)) = result (query srv input src agent) \<and>
   (0x2F \<notin> set m \<and> client agent = Some c \<and> session_for srv agent = Some sid \<and>
    on_subscribe srv = Subscribed evs fin \<longrightarrow>
      calls (query srv input src (agent\<lparr>currentModel := m\<rparr>)) =
        (if truthy_str (currentSessionId agent) then [] else [SessionCreate]) @
        [EventSubscribe,
         SessionPrompt \<lparr>prompt_session = sid, providerID = Some m, modelID = None,
                        prompt_text = instruction input src\<rparr>])"
proof (intro conjI impI)
  show "modelSelector (js ''openai/gpt-5'') = (Some (js ''openai''), Some (js ''gpt-5''))"
    by (simp add: modelSelector_def element_def js_def unit_of_def)
  show "modelSelector (p @ 0x2F # q) = (Some p, Some q)" if "0x2F \<notin> set p \<and> 0x2F \<notin> set q"
    using that by (simp add: modelSelector_first_two)
  show "modelSelector (p @ 0x2F # q @ 0x2F # rest) = (Some p, Some q)"
    if "0x2F \<notin> set p \<and> 0x2F \<notin> set q"
    using that by (simp add: modelSelector_first_two)
  show none: "modelSelector m = (Some m, None)" if "0x2F \<notin> set m"
    using that by (simp add: modelSelector_def element_def split_without_separator)
  show "result (query srv input src (agent\<lparr>currentModel := m\<rparr>)) = result (query srv input src agent)"
    by (rule query_result_any_model)
  assume h: "0x2F \<notin> set m \<and> client agent = Some c \<and> session_for srv agent = Some sid \<and>
    on_subscribe srv = Subscribed evs fin"
  let ?agent = "agent\<lparr>currentModel := m\<rparr>"
  have c: "client ?agent = Some c" using h by simp
  have "session_for srv ?agent = session_for srv agent" by (simp add: session_for_def)
  with h have s: "session_for srv ?agent = Some sid" by simp
  from h have sub: "on_subscribe srv = Subscribed evs fin" by simp
  from h have "modelSelector m = (Some m, None)" by (simp add: none)
  then show "calls (query srv input src ?agent) =
        (if truthy_str (currentSessionId agent) then [] else [SessionCreate]) @
        [EventSubscribe,
         SessionPrompt \<lparr>prompt_session = sid, providerID = Some m, modelID = None,
                        prompt_text = instruction input src\<rparr>]"
    by (simp add: query_calls_subscribed [OF c s sub])
qed

theorem modelSelector_no_validation_witness:
  "modelSelector (js ''openrouter/anthropic/claude'') = (Some (js ''openrouter''), Some (js ''anthropic'')) \<and>
   modelSelector (js ''zai/glm'') = (Some (js ''zai''), Some (js ''glm'')) \<and>
   0x2F \<notin> set (js ''gemini'') \<and> modelSelector (js ''gemini'') = (Some (js ''gemini''), None) \<and>
   calls (query (creating ''ses_1'' []) (js ''hi'') (Some (js ''./repo''))
            ((fresh_agent ''openai/gpt-5'')\<lparr>currentModel := js ''gemini''\<rparr>)) =
     [SessionCreate, EventSubscribe,
      SessionPrompt \<lparr>prompt_session = js ''ses_1'', providerID = Some (js ''gemini''), modelID = None,
                     prompt_text = js ''Using the source '' @ [0x27] @ js ''./repo'' @ [0x27] @
                                   js '', please answer: hi''\<rparr>]"
proof -
  let ?agent = "fresh_agent ''openai/gpt-5''"
  let ?c = "\<lparr>baseUrl = js ''http://127.0.0.1:4096'', directory = None\<rparr>"
  have h1: "0x2F \<notin> set (js ''openrouter'') \<and> 0x2F \<notin> set (js ''anthropic'')"
    by (simp add: js_def unit_of_def)
  have h2: "0x2F \<notin> set (js ''zai'') \<and> 0x2F \<notin> set (js ''glm'')"
    by (simp add: js_def unit_of_def)
  have h3: "0x2F \<notin> set (js ''gemini'') \<and> client ?agent = Some ?c \<and>
            session_for (creating ''ses_1'' []) ?agent = Some (js ''ses_1'') \<and>
            on_subscribe (creating ''ses_1'' []) = Subscribed [] StreamEnds"
    by (simp add: js_def unit_of_def fresh_agent_def session_for_def creating_def)
  have e1: "js ''openrouter'' @ 0x2F # js ''anthropic'' @ 0x2F # js ''claude'' = js ''openrouter/anthropic/claude''"
    and e2: "js ''zai'' @ 0x2F # js ''glm'' = js ''zai/glm''"
    by (simp_all add: js_def unit_of_def)
  have i: "instruction (js ''hi'') (Some (js ''./repo'')) =
             js ''Using the source '' @ [0x27] @ js ''./repo'' @ [0x27] @ js '', please answer: hi''"
    by (simp add: instruction_def js_def)
  have t: "\<not> truthy_str (currentSessionId ?agent)" by (simp add: fresh_agent_def)
  from modelSelector_no_validation [where p = "js ''openrouter''" and q = "js ''anthropic''" and rest = "js ''claude''"] h1
  have a: "modelSelector (js ''openrouter'' @ 0x2F # js ''anthropic'' @ 0x2F # js ''claude'') =
             (Some (js ''openrouter''), Some (js ''anthropic''))"
    by blast
  from modelSelector_no_validation [where p = "js ''zai''" and q = "js ''glm''"] h2
  have b: "modelSelector (js ''zai'' @ 0x2F # js ''glm'') = (Some (js ''zai''), Some (js ''glm''))"
    by blast
  from modelSelector_no_validation
         [where m = "js ''gemini''" and agent = ?agent and c = ?c and srv = "creating ''ses_1'' []"
            and sid = "js ''ses_1''" and evs = "[]" and fin = StreamEnds and input = "js ''hi''"
            and src = "Some (js ''./repo'')"] h3
  have d: "modelSelector (js ''gemini'') = (Some (js ''gemini''), None)"
    and f: "calls (query (creating ''ses_1'' []) (js ''hi'') (Some (js ''./repo''))
              (?agent\<lparr>currentModel := js ''gemini''\<rparr>)) =
        (if truthy_str (currentSessionId ?agent) then [] else [SessionCreate]) @
        [EventSubscribe,
         SessionPrompt \<lparr>prompt_session = js ''ses_1'', providerID = Some (js ''gemini''), modelID = None,
                        prompt_text = instruction (js ''hi'') (Some (js ''./repo''))\<rparr>]"
    by blast+
  from a b d f h3 show ?thesis unfolding e1 e2 i by (simp add: t)
qed

theorem modelSelector_no_validation_counterexample:
  "0x2F \<notin> set (js ''gpt-5'') \<and>
   result (query
     (streaming [part_updated ''a'' None ''Hi'', plain_event ''session.idle'' (Some ''s1'')])
     (js ''hi'') None (ready_agent ''gpt-5'' ''s1'')) = Fulfilled \<lparr>response = js ''Hi'', tokenUsage = None\<rparr> \<and>
   calls (query
     (streaming [part_updated ''a'' None ''Hi'', plain_event ''session.idle'' (Some ''s1'')])
     (js ''hi'') None (ready_agent ''gpt-5'' ''s1'')) =
     [EventSubscribe,
      SessionPrompt \<lparr>prompt_session = js ''s1'', providerID = Some (js ''gpt-5''), modelID = None,
                     prompt_text = js ''hi''\<rparr>]"
  by (simp add: fixture_simps query_simps js_def unit_of_def split_without_separator)

section \<open>Sessions and lifecycle: properties\<close>

lemma query_not_started:
  "client agent = None \<Longrightarrow>
   query srv input src agent =
     \<lparr>result = Rejected (js ''Agent not started''), agent_after = agent, calls = []\<rparr>"
  by (simp add: query_def)

lemma query_with_session:
  assumes "currentSessionId agent = Some sid" and "sid \<noteq> []"
  shows "agent_after (query srv input src agent) = agent"
    and "SessionCreate \<notin> set (calls (query srv input src agent))"
    and "SessionPrompt p \<in> set (calls (query srv input src agent)) \<Longrightarrow> prompt_session p = sid"
  using assms
  by (auto simp: query_def Let_def split: option.splits sum.splits prod.splits)

lemma query_creation_fails:
  assumes "client agent = Some c" and "currentSessionId agent = None" and "on_create srv = CreateNoData"
  shows "query srv input src agent =
     \<lparr>result = Rejected (js ''Failed to create session''), agent_after = agent, calls = [SessionCreate]\<rparr>"
  using assms by (simp add: query_def Let_def)

lemma query_creates_first:
  assumes "client agent = Some c" and "currentSessionId agent = None"
  shows "take 1 (calls (query srv input src agent)) = [SessionCreate]"
  using assms
  by (auto simp: query_def Let_def split: creation.splits sum.splits prod.splits)

lemma query_caches_created:
  assumes "client agent = Some c" and "currentSessionId agent = None" and "on_create srv = CreateData sid"
  shows "currentSessionId (agent_after (query srv input src agent)) = Some sid"
  using assms
  by (auto simp: query_def Let_def split: sum.splits prod.splits)

lemma perform_keeps_session:
  assumes "\<not> resets r" and "currentSessionId agent = Some sid" and "sid \<noteq> []"
  shows "currentSessionId (fst (perform r agent)) = Some sid"
proof (cases r)
  case (Query srv input src)
  then show ?thesis using query_with_session(1) [OF assms(2,3)] assms(2) by simp
next
  case (Start spawned)
  then show ?thesis using assms(2) by (cases spawned) (simp_all add: start_def)
qed (use assms in \<open>simp_all add: setModel_def setThinkingMode_def setRepositoryPath_def\<close>)

lemma run_Cons_fst:
  "fst (run (r # rs) agent) =
     (if pending (snd (perform r agent)) then fst (perform r agent)
      else fst (run rs (fst (perform r agent))))"
  by (cases "perform r agent"; cases "run rs (fst (perform r agent))") simp

lemma run_keeps_session:
  "\<forall>r \<in> set rs. \<not> resets r \<Longrightarrow> currentSessionId agent = Some sid \<Longrightarrow> sid \<noteq> [] \<Longrightarrow>
   currentSessionId (fst (run rs agent)) = Some sid"
proof (induction rs arbitrary: agent)
  case Nil
  then show ?case by simp
next
  case (Cons r rs)
  have first: "currentSessionId (fst (perform r agent)) = Some sid"
    using Cons.prems by (intro perform_keeps_session) simp_all
  then have "currentSessionId (fst (run rs (fst (perform r agent)))) = Some sid"
    using Cons.prems by (intro Cons.IH) simp_all
  with first show ?case unfolding run_Cons_fst by simp
qed

lemma perform_stays_stopped:
  assumes "\<not> starts r" and "client agent = None"
  shows "client (fst (perform r agent)) = None"
  using assms
  by (cases r)
     (simp_all add: setModel_def setThinkingMode_def setSessionId_def setRepositoryPath_def stop_def
        query_not_started)

lemma run_stays_stopped:
  "\<forall>r \<in> set rs. \<not> starts r \<Longrightarrow> client agent = None \<Longrightarrow> client (fst (run rs agent)) = None"
proof (induction rs arbitrary: agent)
  case Nil
  then show ?case by simp
next
  case (Cons r rs)
  have first: "client (fst (perform r agent)) = None"
    using Cons.prems by (intro perform_stays_stopped) simp_all
  then have "client (fst (run rs (fst (perform r agent)))) = None"
    using Cons.prems by (intro Cons.IH) simp_all
  with first show ?case unfolding run_Cons_fst by simp
qed

lemma query_keeps_client: "client (agent_after (query srv input src agent)) = client agent"
proof (cases "client agent")
  case None
  then show ?thesis by (simp add: query_def)
next
  case (Some c)
  show ?thesis
  proof (cases "truthy_str (currentSessionId agent)")
    case True
    with Some show ?thesis
      by (cases "on_subscribe srv")
         (simp_all add: query_def sessionEvents_def Let_def split: prod.split)
  next
    case False
    with Some show ?thesis
      by (cases "on_create srv"; cases "on_subscribe srv")
         (simp_all add: query_def sessionEvents_def Let_def split: prod.split)
  qed
qed

lemma query_keeps_model: "currentModel (agent_after (query srv input src agent)) = currentModel agent"
proof (cases "client agent")
  case None
  then show ?thesis by (simp add: query_def)
next
  case (Some c)
  show ?thesis
  proof (cases "truthy_str (currentSessionId agent)")
    case True
    with Some show ?thesis
      by (cases "on_subscribe srv")
         (simp_all add: query_def sessionEvents_def Let_def split: prod.split)
  next
    case False
    with Some show ?thesis
      by (cases "on_create srv"; cases "on_subscribe srv")
         (simp_all add: query_def sessionEvents_def Let_def split: prod.split)
  qed
qed

lemma perform_keeps_client:
  assumes "\<not> resets r" and "client agent \<noteq> None"
  shows "client (fst (perform r agent)) \<noteq> None"
proof (cases r)
  case (Query srv input src)
  then show ?thesis using assms(2) by (simp add: query_keeps_client)
next
  case (Start spawned)
  then show ?thesis using assms(2) by (cases spawned) (simp_all add: start_def)
qed (use assms in \<open>simp_all add: setModel_def setThinkingMode_def setRepositoryPath_def\<close>)

lemma run_keeps_client:
  "\<forall>r \<in> set rs. \<not> resets r \<Longrightarrow> client agent \<noteq> None \<Longrightarrow> client (fst (run rs agent)) \<noteq> None"
proof (induction rs arbitrary: agent)
  case Nil
  then show ?case by simp
next
  case (Cons r rs)
  have first: "client (fst (perform r agent)) \<noteq> None"
    using Cons.prems by (intro perform_keeps_client) simp_all
  then have "client (fst (run rs (fst (perform r agent)))) \<noteq> None"
    using Cons.prems by (intro Cons.IH) simp_all
  with first show ?case unfolding run_Cons_fst by simp
qed

lemma query_subscription_rejected:
  assumes "client agent = Some c" and "currentSessionId agent = Some sid" and "sid \<noteq> []"
    and "on_subscribe srv = SubscribeRejects msg"
  shows "calls (query srv input src agent) = [EventSubscribe]"
    and "result (query srv input src agent) = Rejected msg"
  using assms by (simp_all add: query_def sessionEvents_def Let_def split: prod.split)

lemma query_calls_cached:
  assumes "client agent = Some c" and "currentSessionId agent = Some sid" and "sid \<noteq> []"
    and "on_subscribe srv = Subscribed evs fin"
  shows "calls (query srv input src agent) =
     [EventSubscribe,
      SessionPrompt \<lparr>prompt_session = sid,
                     providerID = fst (modelSelector (currentModel agent)),
                     modelID = snd (modelSelector (currentModel agent)),
                     prompt_text = instruction input src\<rparr>]"
proof -
  have s: "session_for srv agent = Some sid" using assms(2,3) by (simp add: session_for_def)
  show ?thesis using assms(2,3) by (simp add: query_calls_subscribed [OF assms(1) s assms(4)])
qed

text \<open>
  Claim C6, as amended. With a client, no cached session and a creation call that
  returns no data, \<open>query\<close> fails with \<open>Failed to create session\<close> after that one call and
  leaves the agent as it was, \<open>currentSessionId\<close> still \<open>null\<close>, so that the next \<open>query\<close>,
  whatever the server answers then, begins by creating a session. When the creation
  call returns a non-empty id, the id is cached, whatever happens later in the call,
  and the prompt of that call goes to it; and after any requests that do not reset it
  (\<open>stop\<close>, \<open>restart\<close>, \<open>setSessionId\<close>) it is still cached, and a query creates no
  session: it subscribes and, when the subscription succeeds, submits its prompt to
  that id, and when the subscription is rejected it fails with that rejection. The
  claim has every returned id reused: the cache is tested for truthiness, so an empty
  id is stored and the next query creates another session (the counterexample).
\<close>

theorem query_session_creation:
  "(client agent = Some c \<and> currentSessionId agent = None \<and> on_create srv = CreateNoData \<longrightarrow>
      result (query srv input src agent) = Rejected (js ''Failed to create session'') \<and>
      calls (query srv input src agent) = [SessionCreate] \<and>
      currentSessionId (agent_after (query srv input src agent)) = None \<and>
      agent_after (query srv input src agent) = agent \<and>
      take 1 (calls (query srv' input' src' (agent_after (query srv input src agent)))) = [SessionCreate]) \<and>
   (client agent = Some c \<and> currentSessionId agent = None \<and> on_create srv = CreateData sid \<and> sid \<noteq> [] \<longrightarrow>
      currentSessionId (agent_after (query srv input src agent)) = Some sid \<and>
      (on_subscribe srv = Subscribed evs0 fin0 \<longrightarrow>
         calls (query srv input src agent) =
           [SessionCreate, EventSubscribe,
            SessionPrompt \<lparr>prompt_session = sid,
                           providerID = fst (modelSelector (currentModel agent)),
                           modelID = snd (modelSelector (currentModel agent)),
                           prompt_text = instruction input src\<rparr>]) \<and>
      (\<forall>rs. (\<forall>r \<in> set rs. \<not> resets r) \<longrightarrow>
         currentSessionId (fst (run rs (agent_after (query srv input src agent)))) = Some sid \<and>
         SessionCreate \<notin> set (calls (query srv' input' src' (fst (run rs (agent_after (query srv input src agent)))))) \<and>
         (\<forall>p. SessionPrompt p \<in> set (calls (query srv' input' src' (fst (run rs (agent_after (query srv input src agent))))))
               \<longrightarrow> prompt_session p = sid) \<and>
         (on_subscribe srv' = Subscribed evs fin \<longrightarrow>
            calls (query srv' input' src' (fst (run rs (agent_after (query srv input src agent))))) =
              [EventSubscribe,
               SessionPrompt
                 \<lparr>prompt_session = sid,
                  providerID = fst (modelSelector (currentModel (fst (run rs (agent_after (query srv input src agent)))))),
                  modelID = snd (modelSelector (currentModel (fst (run rs (agent_after (query srv input src agent)))))),
                  prompt_text = instruction input' src'\<rparr>]) \<and>
         (on_subscribe srv' = SubscribeRejects msg \<longrightarrow>
            calls (query srv' input' src' (fst (run rs (agent_after (query srv input src agent))))) = [EventSubscribe] \<and>
            result (query srv' input' src' (fst (run rs (agent_after (query srv input src agent))))) = Rejected msg)))"
proof (intro conjI impI allI)
  assume h: "client agent = Some c \<and> currentSessionId agent = None \<and> on_create srv = CreateNoData"
  then have q: "query srv input src agent =
     \<lparr>result = Rejected (js ''Failed to create session''), agent_after = agent, calls = [SessionCreate]\<rparr>"
    by (intro query_creation_fails) simp_all
  show "result (query srv input src agent) = Rejected (js ''Failed to create session'')" by (simp add: q)
  show "calls (query srv input src agent) = [SessionCreate]" by (simp add: q)
  show "currentSessionId (agent_after (query srv input src agent)) = None" using h by (simp add: q)
  show same: "agent_after (query srv input src agent) = agent" by (simp add: q)
  show "take 1 (calls (query srv' input' src' (agent_after (query srv input src agent)))) = [SessionCreate]"
    unfolding same using h by (intro query_creates_first [of agent c]) simp_all
next
  assume h: "client agent = Some c \<and> currentSessionId agent = None \<and> on_create srv = CreateData sid \<and> sid \<noteq> []"
  then show cached: "currentSessionId (agent_after (query srv input src agent)) = Some sid"
    by (intro query_caches_created [of agent c]) simp_all
  from h have ne: "sid \<noteq> []" by simp
  from h have cl: "client agent = Some c" by simp
  {
    assume sub: "on_subscribe srv = Subscribed evs0 fin0"
    from h have s: "session_for srv agent = Some sid" by (simp add: session_for_def)
    from h show "calls (query srv input src agent) =
           [SessionCreate, EventSubscribe,
            SessionPrompt \<lparr>prompt_session = sid,
                           providerID = fst (modelSelector (currentModel agent)),
                           modelID = snd (modelSelector (currentModel agent)),
                           prompt_text = instruction input src\<rparr>]"
      by (simp add: query_calls_subscribed [OF cl s sub])
  }
  fix rs
  assume nr: "\<forall>r \<in> set rs. \<not> resets r"
  let ?later = "fst (run rs (agent_after (query srv input src agent)))"
  show kept: "currentSessionId ?later = Some sid"
    using nr cached ne by (intro run_keeps_session) simp_all
  have "client (agent_after (query srv input src agent)) \<noteq> None"
    using cl by (simp add: query_keeps_client)
  with nr have "client ?later \<noteq> None" by (intro run_keeps_client) simp_all
  then obtain c' where cl': "client ?later = Some c'" by auto
  show "SessionCreate \<notin> set (calls (query srv' input' src' ?later))"
    by (rule query_with_session(2) [OF kept ne])
  {
    fix p
    assume "SessionPrompt p \<in> set (calls (query srv' input' src' ?later))"
    then show "prompt_session p = sid"
      by (rule query_with_session(3) [OF kept ne])
  }
  {
    assume sub: "on_subscribe srv' = Subscribed evs fin"
    show "calls (query srv' input' src' ?later) =
              [EventSubscribe,
               SessionPrompt
                 \<lparr>prompt_session = sid,
                  providerID = fst (modelSelector (currentModel ?later)),
                  modelID = snd (modelSelector (currentModel ?later)),
                  prompt_text = instruction input' src'\<rparr>]"
      by (rule query_calls_cached [OF cl' kept ne sub])
  }
  {
    assume rej: "on_subscribe srv' = SubscribeRejects msg"
    show "calls (query srv' input' src' ?later) = [EventSubscribe]"
      by (rule query_subscription_rejected(1) [OF cl' kept ne rej])
    show "result (query srv' input' src' ?later) = Rejected msg"
      by (rule query_subscription_rejected(2) [OF cl' kept ne rej])
  }
qed

theorem query_session_creation_witness:
  "result (query (streaming []) (js ''hi'') None (fresh_agent ''openai/gpt-5'')) =
     Rejected (js ''Failed to create session'') \<and>
   currentSessionId (agent_after (query (streaming []) (js ''hi'') None (fresh_agent ''openai/gpt-5''))) = None \<and>
   take 1 (calls (query (creating ''ses_1'' []) (js ''again'') None
      (agent_after (query (streaming []) (js ''hi'') None (fresh_agent ''openai/gpt-5''))))) = [SessionCreate] \<and>
   currentSessionId (agent_after (query (creating ''ses_1'' []) (js ''hi'') None (fresh_agent ''openai/gpt-5'')))
     = Some (js ''ses_1'') \<and>
   calls (query (creating ''ses_1'' []) (js ''hi'') None (fresh_agent ''openai/gpt-5'')) =
     [SessionCreate, EventSubscribe,
      SessionPrompt \<lparr>prompt_session = js ''ses_1'', providerID = Some (js ''openai''),
                     modelID = Some (js ''gpt-5''), prompt_text = js ''hi''\<rparr>] \<and>
   calls (query (creating ''ses_2'' []) (js ''again'') None
      (fst (run [SetModel (js ''zai/glm''), Query (creating ''ses_3'' []) (js ''more'') None]
         (agent_after (query (creating ''ses_1'' []) (js ''hi'') None (fresh_agent ''openai/gpt-5''))))))
     = [EventSubscribe,
        SessionPrompt \<lparr>prompt_session = js ''ses_1'', providerID = Some (js ''zai''),
                       modelID = Some (js ''glm''), prompt_text = js ''again''\<rparr>]"
proof -
  let ?agent = "fresh_agent ''openai/gpt-5''"
  let ?c = "\<lparr>baseUrl = js ''http://127.0.0.1:4096'', directory = None\<rparr>"
  let ?rs = "[SetModel (js ''zai/glm''), Query (creating ''ses_3'' []) (js ''more'') None]"
  let ?first = "agent_after (query (creating ''ses_1'' []) (js ''hi'') None ?agent)"
  have h1: "client ?agent = Some ?c \<and> currentSessionId ?agent = None \<and> on_create (streaming []) = CreateNoData"
    by (simp add: fresh_agent_def streaming_def)
  have h2: "client ?agent = Some ?c \<and> currentSessionId ?agent = None \<and>
            on_create (creating ''ses_1'' []) = CreateData (js ''ses_1'') \<and> js ''ses_1'' \<noteq> []"
    by (simp add: fresh_agent_def creating_def)
  have h3: "\<forall>r \<in> set ?rs. \<not> resets r" by simp
  have h4: "on_subscribe (creating sid []) = Subscribed [] StreamEnds" for sid
    by (simp add: creating_def)
  have m0: "modelSelector (currentModel ?agent) = (Some (js ''openai''), Some (js ''gpt-5''))"
    by (simp add: fresh_agent_def modelSelector_def element_def js_def unit_of_def)
  have m1: "currentModel (fst (run ?rs ?first)) = js ''zai/glm''"
    by (simp add: setModel_def query_keeps_model)
  have m2: "modelSelector (js ''zai/glm'') = (Some (js ''zai''), Some (js ''glm''))"
    by (simp add: modelSelector_def element_def js_def unit_of_def)
  have i: "instruction t None = t" for t by (simp add: instruction_def)
  from query_session_creation
         [where agent = ?agent and c = ?c and srv = "streaming []" and input = "js ''hi''" and src = None
            and srv' = "creating ''ses_1'' []" and input' = "js ''again''" and src' = None]
       h1
  have first: "result (query (streaming []) (js ''hi'') None ?agent) = Rejected (js ''Failed to create session'') \<and>
     currentSessionId (agent_after (query (streaming []) (js ''hi'') None ?agent)) = None \<and>
     take 1 (calls (query (creating ''ses_1'' []) (js ''again'') None
        (agent_after (query (streaming []) (js ''hi'') None ?agent)))) = [SessionCreate]"
    by blast
  from query_session_creation
         [where agent = ?agent and c = ?c and srv = "creating ''ses_1'' []" and input = "js ''hi''"
            and src = None and sid = "js ''ses_1''" and evs0 = "[]" and fin0 = StreamEnds
            and srv' = "creating ''ses_2'' []" and input' = "js ''again''" and src' = None
            and evs = "[]" and fin = StreamEnds]
       h2 h3 h4
  have second: "currentSessionId ?first = Some (js ''ses_1'')"
    and third: "calls (query (creating ''ses_1'' []) (js ''hi'') None ?agent) =
           [SessionCreate, EventSubscribe,
            SessionPrompt \<lparr>prompt_session = js ''ses_1'',
                           providerID = fst (modelSelector (currentModel ?agent)),
                           modelID = snd (modelSelector (currentModel ?agent)),
                           prompt_text = instruction (js ''hi'') None\<rparr>]"
    and fourth: "calls (query (creating ''ses_2'' []) (js ''again'') None (fst (run ?rs ?first))) =
              [EventSubscribe,
               SessionPrompt
                 \<lparr>prompt_session = js ''ses_1'',
                  providerID = fst (modelSelector (currentModel (fst (run ?rs ?first)))),
                  modelID = snd (modelSelector (currentModel (fst (run ?rs ?first)))),
                  prompt_text = instruction (js ''again'') None\<rparr>]"
    by blast+
  from first second third fourth show ?thesis
    unfolding m1 m2 m0 i by simp
qed

theorem query_session_creation_counterexample:
  "on_create (creating [] []) = CreateData [] \<and>
   currentSessionId (agent_after (query (creating [] []) (js ''hi'') None (fresh_agent ''openai/gpt-5'')))
     = Some [] \<and>
   calls (query (creating ''ses_2'' []) (js ''again'') None
      (agent_after (query (creating [] []) (js ''hi'') None (fresh_agent ''openai/gpt-5'')))) =
     [SessionCreate, EventSubscribe,
      SessionPrompt \<lparr>prompt_session = js ''ses_2'', providerID = Some (js ''openai''),
                     modelID = Some (js ''gpt-5''), prompt_text = js ''again''\<rparr>]"
  by (simp add: fixture_simps creating_def fresh_agent_def query_simps js_def unit_of_def)

text \<open>
  Claim C10. \<open>stop\<close> sets the client, the process handle and the cached session id to
  \<open>null\<close> and leaves the repository path, the model string and the thinking mode as they
  were. After it, and after any further requests among which there is no \<open>start\<close> (or
  \<open>restart\<close>), a \<open>query\<close> fails with \<open>Agent not started\<close>, calls nothing and changes
  nothing. A \<open>start\<close> that follows the \<open>stop\<close> spawns the server with the model string
  kept, and, when the server comes up, binds the client to the repository path kept
  (no directory for an empty or missing path).
\<close>

theorem stop_clears_session_keeps_settings:
  "client (agent_after (stop agent)) = None \<and>
   serverProc (agent_after (stop agent)) = None \<and>
   currentSessionId (agent_after (stop agent)) = None \<and>
   repositoryPath (agent_after (stop agent)) = repositoryPath agent \<and>
   currentModel (agent_after (stop agent)) = currentModel agent \<and>
   currentMode (agent_after (stop agent)) = currentMode agent \<and>
   (\<forall>rs. (\<forall>r \<in> set rs. \<not> starts r) \<longrightarrow>
      query srv input src (fst (run rs (agent_after (stop agent)))) =
        \<lparr>result = Rejected (js ''Agent not started''),
         agent_after = fst (run rs (agent_after (stop agent))), calls = []\<rparr>) \<and>
   calls (start spawned (agent_after (stop agent))) = [SpawnServer (currentModel agent)] \<and>
   (spawned = Spawned process url \<longrightarrow>
      result (start spawned (agent_after (stop agent))) = Fulfilled () \<and>
      client (agent_after (start spawned (agent_after (stop agent)))) =
        Some \<lparr>baseUrl = url,
              directory = (if truthy_str (repositoryPath agent) then repositoryPath agent else None)\<rparr> \<and>
      repositoryPath (agent_after (start spawned (agent_after (stop agent)))) = repositoryPath agent \<and>
      currentModel (agent_after (start spawned (agent_after (stop agent)))) = currentModel agent)"
proof (intro conjI impI allI)
  fix rs
  assume "\<forall>r \<in> set rs. \<not> starts r"
  then have "client (fst (run rs (agent_after (stop agent)))) = None"
    by (intro run_stays_stopped) (simp_all add: stop_def)
  then show "query srv input src (fst (run rs (agent_after (stop agent)))) =
        \<lparr>result = Rejected (js ''Agent not started''),
         agent_after = fst (run rs (agent_after (stop agent))), calls = []\<rparr>"
    by (rule query_not_started)
next
  show "calls (start spawned (agent_after (stop agent))) = [SpawnServer (currentModel agent)]"
    by (cases spawned) (simp_all add: start_def stop_def)
qed (simp_all add: stop_def start_def)

theorem stop_clears_session_keeps_settings_witness:
  "result (query (streaming []) (js ''hi'') None
     (fst (run [Query (streaming []) (js ''first'') None, SetThinkingMode High, Stop]
        (agent_after (stop (setRepositoryPath (js ''/repo'') (ready_agent ''zai/glm'' ''s1'')))))))
     = Rejected (js ''Agent not started'') \<and>
   client (agent_after (start (Spawned 7 (js ''http://127.0.0.1:4096''))
     (agent_after (stop (setRepositoryPath (js ''/repo'') (ready_agent ''zai/glm'' ''s1''))))))
     = Some \<lparr>baseUrl = js ''http://127.0.0.1:4096'', directory = Some (js ''/repo'')\<rparr> \<and>
   calls (start (Spawned 7 (js ''http://127.0.0.1:4096''))
     (agent_after (stop (setRepositoryPath (js ''/repo'') (ready_agent ''zai/glm'' ''s1'')))))
     = [SpawnServer (js ''zai/glm'')]"
proof -
  let ?agent = "setRepositoryPath (js ''/repo'') (ready_agent ''zai/glm'' ''s1'')"
  let ?rs = "[Query (streaming []) (js ''first'') None, SetThinkingMode High, Stop]"
  have h1: "\<forall>r \<in> set ?rs. \<not> starts r" by simp
  have v: "repositoryPath ?agent = Some (js ''/repo'')" "currentModel ?agent = js ''zai/glm''"
    by (simp_all add: setRepositoryPath_def ready_agent_def)
  from stop_clears_session_keeps_settings
         [where agent = ?agent and srv = "streaming []" and input = "js ''hi''" and src = None
            and spawned = "Spawned 7 (js ''http://127.0.0.1:4096'')" and process = 7
            and url = "js ''http://127.0.0.1:4096''"]
  have every: "(\<forall>rs. (\<forall>r \<in> set rs. \<not> starts r) \<longrightarrow>
      query (streaming []) (js ''hi'') None (fst (run rs (agent_after (stop ?agent)))) =
        \<lparr>result = Rejected (js ''Agent not started''),
         agent_after = fst (run rs (agent_after (stop ?agent))), calls = []\<rparr>)"
    and spawn: "calls (start (Spawned 7 (js ''http://127.0.0.1:4096'')) (agent_after (stop ?agent))) =
           [SpawnServer (currentModel ?agent)]"
    and bound: "client (agent_after (start (Spawned 7 (js ''http://127.0.0.1:4096'')) (agent_after (stop ?agent)))) =
        Some \<lparr>baseUrl = js ''http://127.0.0.1:4096'',
              directory = (if truthy_str (repositoryPath ?agent) then repositoryPath ?agent else None)\<rparr>"
    by blast+
  from every h1 have q: "query (streaming []) (js ''hi'') None (fst (run ?rs (agent_after (stop ?agent)))) =
        \<lparr>result = Rejected (js ''Agent not started''),
         agent_after = fst (run ?rs (agent_after (stop ?agent))), calls = []\<rparr>"
    by blast
  have r: "result (query (streaming []) (js ''hi'') None (fst (run ?rs (agent_after (stop ?agent))))) =
        Rejected (js ''Agent not started'')"
    unfolding q by simp
  from spawn bound v have "calls (start (Spawned 7 (js ''http://127.0.0.1:4096'')) (agent_after (stop ?agent))) =
           [SpawnServer (js ''zai/glm'')]"
    and "client (agent_after (start (Spawned 7 (js ''http://127.0.0.1:4096'')) (agent_after (stop ?agent)))) =
        Some \<lparr>baseUrl = js ''http://127.0.0.1:4096'', directory = Some (js ''/repo'')\<rparr>"
    by simp_all
  with r show ?thesis by blast
qed

section \<open>The input line: properties\<close>

lemma lazy_group_needs_bracket: "lazy_group taken cs = Some g \<Longrightarrow> 0x5D \<in> set cs"
  by (induction cs arbitrary: taken) (auto split: if_splits)

lemma sourceMatch_bracketed: "sourceMatch input = Some g \<Longrightarrow> bracketed input"
  by (auto simp: sourceMatch_def bracketed_def split: list.splits if_splits dest: lazy_group_needs_bracket)

lemma trim_after_spaces: "trim (dropWhile isSpace q) = trim q"
  by (simp add: trim_def)

lemma lazy_group_first_bracket:
  assumes "0x5D \<notin> set s" and "\<not> list_ex isLineTerminator s"
    and "\<not> list_ex isLineTerminator (dropWhile isSpace q)"
  shows "lazy_group taken (s @ 0x5D # q) = Some (taken @ s, dropWhile isSpace q)"
  using assms by (induction s arbitrary: taken) auto

text \<open>
  Claim C8. \<open>parseInput\<close> takes the bracketed source off the front of the line:
  \<open>[./repo] what does this do\<close> gives the source \<open>./repo\<close> and the query
  \<open>what does this do\<close>, and in general an input \<open>[s]q\<close>, where \<open>s\<close> has no closing bracket
  and no line terminator and \<open>q\<close> has no line terminator after its leading white space,
  gives the trimmed \<open>s\<close> as the source and the trimmed \<open>q\<close> as the query; and an input
  without a leading bracketed prefix (it does not open with a bracket that is closed
  later), such as \<open>plain question\<close>, gives no source and the trimmed input as the query.
\<close>

theorem parseInput_bracketed_source:
  "parseInput (js ''[./repo] what does this do'') =
     \<lparr>source = Some (js ''./repo''), query_text = js ''what does this do''\<rparr> \<and>
   parseInput (js ''plain question'') = \<lparr>source = None, query_text = js ''plain question''\<rparr> \<and>
   (0x5D \<notin> set s \<and> \<not> list_ex isLineTerminator s \<and>
    \<not> list_ex isLineTerminator (dropWhile isSpace q) \<longrightarrow>
      parseInput (0x5B # s @ 0x5D # q) = \<lparr>source = Some (trim s), query_text = trim q\<rparr>) \<and>
   (\<not> bracketed input \<longrightarrow> parseInput input = \<lparr>source = None, query_text = trim input\<rparr>)"
proof (intro conjI impI)
  show "parseInput (js ''[./repo] what does this do'') =
     \<lparr>source = Some (js ''./repo''), query_text = js ''what does this do''\<rparr>"
    by (simp add: parseInput_def sourceMatch_def trim_def isSpace_def isLineTerminator_def js_def unit_of_def)
  show "parseInput (js ''plain question'') = \<lparr>source = None, query_text = js ''plain question''\<rparr>"
    by (simp add: parseInput_def sourceMatch_def trim_def isSpace_def isLineTerminator_def js_def unit_of_def)
  show "parseInput (0x5B # s @ 0x5D # q) = \<lparr>source = Some (trim s), query_text = trim q\<rparr>"
    if "0x5D \<notin> set s \<and> \<not> list_ex isLineTerminator s \<and>
        \<not> list_ex isLineTerminator (dropWhile isSpace q)"
    using that by (simp add: parseInput_def sourceMatch_def lazy_group_first_bracket trim_after_spaces)
  show "parseInput input = \<lparr>source = None, query_text = trim input\<rparr>" if "\<not> bracketed input"
  proof (cases "sourceMatch input")
    case None
    then show ?thesis by (simp add: parseInput_def)
  next
    case (Some g)
    with that show ?thesis by (auto dest: sourceMatch_bracketed)
  qed
qed

theorem parseInput_bracketed_source_witness:
  "parseInput (js ''[ src/agent ]   where is [start] defined?  '') =
     \<lparr>source = Some (js ''src/agent''), query_text = js ''where is [start] defined?''\<rparr> \<and>
   \<not> bracketed (js ''  how is [main] built?  '') \<and>
   parseInput (js ''  how is [main] built?  '') =
     \<lparr>source = None, query_text = js ''how is [main] built?''\<rparr>"
proof -
  let ?s = "js '' src/agent ''"
  let ?q = "js ''   where is [start] defined?  ''"
  have h1: "0x5D \<notin> set ?s \<and> \<not> list_ex isLineTerminator ?s \<and>
            \<not> list_ex isLineTerminator (dropWhile isSpace ?q)"
    by (simp add: isSpace_def isLineTerminator_def js_def unit_of_def)
  have e: "0x5B # ?s @ 0x5D # ?q = js ''[ src/agent ]   where is [start] defined?  ''"
    by (simp add: js_def unit_of_def)
  have t1: "trim ?s = js ''src/agent''" "trim ?q = js ''where is [start] defined?''"
    by (simp_all add: trim_def isSpace_def js_def unit_of_def)
  have h: "\<not> bracketed (js ''  how is [main] built?  '')"
    by (simp add: bracketed_def js_def unit_of_def)
  have t: "trim (js ''  how is [main] built?  '') = js ''how is [main] built?''"
    by (simp add: trim_def isSpace_def js_def unit_of_def)
  from parseInput_bracketed_source [of ?s ?q "js ''  how is [main] built?  ''"] h1 h
  have "parseInput (0x5B # ?s @ 0x5D # ?q) = \<lparr>source = Some (trim ?s), query_text = trim ?q\<rparr>"
    and "parseInput (js ''  how is [main] built?  '') =
      \<lparr>source = None, query_text = trim (js ''  how is [main] built?  '')\<rparr>"
    by blast+
  with e t1 t h show ?thesis by simp
qed

section \<open>Providers and API keys: properties\<close>

lemma read_unlisted:
  "p \<notin> fst ` set PROVIDER_API_KEYS \<Longrightarrow> p \<notin> set objectPrototypeMembers \<Longrightarrow>
   read_PROVIDER_API_KEYS p = Undefined"
  by (simp add: read_PROVIDER_API_KEYS_def map_of_eq_None_iff [THEN iffD2])

text \<open>
  Claim C9, as amended. For every provider id that is neither a key of
  \<open>PROVIDER_API_KEYS\<close> nor the name of a member that every object inherits,
  \<open>hasApiKey\<close> is true in every environment, also when \<open>requiresApiKey\<close> is true for the
  id, as for \<open>alibaba\<close>. No provider of \<open>allowedProviders\<close>, the providers that can be
  selected, is in that situation: \<open>zai\<close> and \<open>opencode\<close> are free and the six others
  are keys of \<open>PROVIDER_API_KEYS\<close>, so with no variable set every allowed provider that
  requires a key fails the key check. The claim fails twice: the id \<open>constructor\<close> has no
  entry, yet the property read finds the inherited member and \<open>hasApiKey\<close> is false; and
  no selectable provider both requires a key and passes the check without a variable.
\<close>

theorem hasApiKey_unlisted_provider:
  "(p \<notin> fst ` set PROVIDER_API_KEYS \<and> p \<notin> set objectPrototypeMembers \<longrightarrow> hasApiKey env p) \<and>
   requiresApiKey (js ''alibaba'') \<and> hasApiKey no_variables (js ''alibaba'') \<and>
   (\<forall>q \<in> set allowedProviders. requiresApiKey q \<longrightarrow> \<not> hasApiKey no_variables q)"
proof (intro conjI impI)
  show "hasApiKey env p" if "p \<notin> fst ` set PROVIDER_API_KEYS \<and> p \<notin> set objectPrototypeMembers"
    using that by (simp add: hasApiKey_def read_unlisted)
  show "requiresApiKey (js ''alibaba'')" by (simp add: provider_simps)
  show "hasApiKey no_variables (js ''alibaba'')" by (simp add: provider_simps)
  show "\<forall>q \<in> set allowedProviders. requiresApiKey q \<longrightarrow> \<not> hasApiKey no_variables q"
    by (simp add: provider_simps)
qed

theorem hasApiKey_unlisted_provider_witness:
  "js ''llama'' \<notin> fst ` set PROVIDER_API_KEYS \<and> js ''llama'' \<notin> set objectPrototypeMembers \<and>
   hasApiKey \<lparr>variables = [js ''GOOGLE_API_KEY'' \<mapsto> js ''k''], printed = (\<lambda>m. m)\<rparr> (js ''llama'') \<and>
   js ''google'' \<in> set allowedProviders \<and> requiresApiKey (js ''google'') \<and>
   \<not> hasApiKey no_variables (js ''google'')"
proof -
  have h1: "js ''llama'' \<notin> fst ` set PROVIDER_API_KEYS \<and> js ''llama'' \<notin> set objectPrototypeMembers"
    by (simp add: PROVIDER_API_KEYS_def objectPrototypeMembers_def)
  have h2: "js ''google'' \<in> set allowedProviders" by (simp add: allowedProviders_def)
  have h3: "requiresApiKey (js ''google'')" by (simp add: requiresApiKey_def FREE_PROVIDERS_def)
  from hasApiKey_unlisted_provider
         [of "js ''llama''" "\<lparr>variables = [js ''GOOGLE_API_KEY'' \<mapsto> js ''k''], printed = (\<lambda>m. m)\<rparr>"]
       h1 h2 h3
  show ?thesis by blast
qed

theorem hasApiKey_unlisted_provider_counterexample:
  "js ''constructor'' \<notin> fst ` set PROVIDER_API_KEYS \<and>
   \<not> hasApiKey no_variables (js ''constructor'') \<and>
   \<not> (requiresApiKey (js ''zai'') \<and> hasApiKey no_variables (js ''zai'')) \<and>
   \<not> (requiresApiKey (js ''opencode'') \<and> hasApiKey no_variables (js ''opencode'')) \<and>
   \<not> (requiresApiKey (js ''google'') \<and> hasApiKey no_variables (js ''google'')) \<and>
   \<not> (requiresApiKey (js ''openai'') \<and> hasApiKey no_variables (js ''openai'')) \<and>
   \<not> (requiresApiKey (js ''deepseek'') \<and> hasApiKey no_variables (js ''deepseek'')) \<and>
   \<not> (requiresApiKey (js ''xai'') \<and> hasApiKey no_variables (js ''xai'')) \<and>
   \<not> (requiresApiKey (js ''anthropic'') \<and> hasApiKey no_variables (js ''anthropic'')) \<and>
   \<not> (requiresApiKey (js ''mistral'') \<and> hasApiKey no_variables (js ''mistral''))"
  by (simp add: provider_simps)

end
